theory Spec2Isabelle
  imports Main
begin

section \<open>Python values\<close>

text \<open>
  The scripts handle parsed JSON throughout: a response body, a record, a field.
  A dict is kept as the list of its items (keys distinct, as \<open>json.loads\<close> leaves them),
  a \<open>str\<close> as a \<open>string\<close>.  Every operation Python applies to such a value is
  written out with the exception it raises on a value of the wrong type.
\<close>

datatype json =
    JNull
  | JBool bool
  | JNum int
  | JStr string
  | JArr "json list"
  | JObj "(string \<times> json) list"

datatype exn =
    TypeError
  | AttributeError
  | ValueError
  | IndexError
  | KeyError
  | SystemExit int

text \<open>Truth value testing (\<open>if x\<close>, \<open>not x\<close>, \<open>x or y\<close>).\<close>

fun truthy :: "json \<Rightarrow> bool" where
  "truthy JNull = False"
| "truthy (JBool b) = b"
| "truthy (JNum n) = (n \<noteq> 0)"
| "truthy (JStr s) = (s \<noteq> [])"
| "truthy (JArr xs) = (xs \<noteq> [])"
| "truthy (JObj kvs) = (kvs \<noteq> [])"

text \<open>\<open>needle in s\<close> on two strings: the substring test.\<close>

fun is_substr :: "string \<Rightarrow> string \<Rightarrow> bool" where
  "is_substr n [] = (n = [])"
| "is_substr n (x # xs) = (take (length n) (x # xs) = n \<or> is_substr n xs)"

text \<open>\<open>needle in x\<close> for a string needle: substring of a str, element of a list, key of a dict.\<close>

fun py_in :: "string \<Rightarrow> json \<Rightarrow> exn + bool" where
  "py_in n (JStr s) = Inr (is_substr n s)"
| "py_in n (JArr xs) = Inr (JStr n \<in> set xs)"
| "py_in n (JObj kvs) = Inr (n \<in> set (map fst kvs))"
| "py_in n _ = Inl TypeError"

text \<open>\<open>s.split(c, 1)\<close>: cut at the first separator, if there is one.\<close>

fun py_split1 :: "char \<Rightarrow> string \<Rightarrow> string list" where
  "py_split1 c [] = [[]]"
| "py_split1 c (x # xs) =
     (if x = c then [[], xs]
      else (case py_split1 c xs of w # ws \<Rightarrow> (x # w) # ws | [] \<Rightarrow> [[x]]))"

text \<open>\<open>x.get(k, default)\<close>: only a dict has \<open>get\<close>.\<close>

fun py_get :: "json \<Rightarrow> string \<Rightarrow> json \<Rightarrow> exn + json" where
  "py_get (JObj kvs) k d = Inr (case map_of kvs k of Some v \<Rightarrow> v | None \<Rightarrow> d)"
| "py_get _ k d = Inl AttributeError"

text \<open>\<open>x[k]\<close> with a string key: a missing key raises, and so does a str or list index.\<close>

fun py_getitem :: "json \<Rightarrow> string \<Rightarrow> exn + json" where
  "py_getitem (JObj kvs) k = (case map_of kvs k of Some v \<Rightarrow> Inr v | None \<Rightarrow> Inl KeyError)"
| "py_getitem _ k = Inl TypeError"

fun py_len :: "json \<Rightarrow> exn + nat" where
  "py_len (JStr s) = Inr (length s)"
| "py_len (JArr xs) = Inr (length xs)"
| "py_len (JObj kvs) = Inr (length kvs)"
| "py_len _ = Inl TypeError"

text \<open>Iteration: the characters of a str, the elements of a list, the keys of a dict.\<close>

fun py_iter :: "json \<Rightarrow> exn + json list" where
  "py_iter (JStr s) = Inr (map (\<lambda>c. JStr [c]) s)"
| "py_iter (JArr xs) = Inr xs"
| "py_iter (JObj kvs) = Inr (map (\<lambda>kv. JStr (fst kv)) kvs)"
| "py_iter _ = Inl TypeError"

text \<open>
  \<open>x[:n]\<close>.  A dict refuses a slice (TypeError for the unhashable key up to Python 3.11,
  KeyError from 3.12 on; the model takes the former).
\<close>

fun py_slice_to :: "nat \<Rightarrow> json \<Rightarrow> exn + json" where
  "py_slice_to n (JStr s) = Inr (JStr (take n s))"
| "py_slice_to n (JArr xs) = Inr (JArr (take n xs))"
| "py_slice_to n _ = Inl TypeError"

text \<open>\<open>x + "..."\<close> with a str on the right: only a str on the left concatenates.\<close>

fun py_add_str :: "json \<Rightarrow> string \<Rightarrow> exn + json" where
  "py_add_str (JStr s) t = Inr (JStr (s @ t))"
| "py_add_str _ t = Inl TypeError"

text \<open>Sequencing: an exception ends the computation.\<close>

definition exn_bind :: "exn + 'a \<Rightarrow> ('a \<Rightarrow> exn + 'b) \<Rightarrow> exn + 'b" where
  "exn_bind m f = (case m of Inl e \<Rightarrow> Inl e | Inr x \<Rightarrow> f x)"

section \<open>Console text\<close>

text \<open>
  A printed line is kept as the pieces of its f-string: literal text (\<open>T\<close>), a
  pictograph by its code point (\<open>U\<close>), a number (\<open>N\<close>) and an interpolated value
  (\<open>V\<close>, whose \<open>str()\<close> is not computed); \<open>Stripped\<close> is \<open>.strip()\<close> of a
  formatted text and \<open>Dumps\<close> is \<open>json.dumps(x, indent=2)\<close>.  A text of several
  lines is the list of its lines, and a \<open>print\<close> whose text starts with a line feed
  prints an empty line first.
\<close>

text \<open>
  The state of the source.  In gainsight-api-hello-world.py a line feed inside a string
  literal is written as the escape \<open>\n\<close>.  The other four files hold a raw line feed in
  its place, inside an ordinary one-line literal:
  \<^item> contacts-lookup.py, lines 129-130 (the separator of \<open>join\<close>), 161-162, 175-176;
  \<^item> company-lookup.py, lines 112-113;
  \<^item> timeline-viewer.py, lines 105-106 (the separator of \<open>join\<close>), 138-139, 151-152;
  \<^item> csm-dashboard.py, lines 198-199 (the separator of \<open>join\<close>), 226-227, 236-237,
    246-247, 251-252, 294-295, 300-301, 325-326.
  Python refuses such a file with a SyntaxError before its first statement runs, so a
  process started from one of these four files as it stands prints nothing, calls nothing
  and ends with exit code 1.  Every definition below that embeds a function with such a
  literal (the three presenters with \<open>join\<close>, and \<open>main\<close> of the four scripts with its
  helpers) reads the literal as the text it spells, the line feed included, which is what
  the hello-world script writes as \<open>\n\<close>.  What is proved about these functions is
  about the functions so read: it says how \<open>main()\<close> ends once it runs, and nothing
  about a process started from the file as it stands.
\<close>

datatype frag = T string | U nat | N nat | V json | Stripped "frag list" | Dumps json

type_synonym line = "frag list"

section \<open>Redaction transform\<close>

text \<open>
  \<open>redact_email(email)\<close>, the same text in contacts-lookup.py and in csm-dashboard.py:
  a falsy argument, and one in which \<open>'@' in email\<close> is false, is returned as it is;
  otherwise \<open>email.split('@', 1)\<close> is unpacked into \<open>user, domain\<close> and the result
  is \<open>user[:1]\<close>, three stars, the at sign and \<open>domain\<close> (the branch for an empty
  \<open>user\<close> leaves \<open>user[:1]\<close> out).  A non-str value that is truthy and holds the at
  sign (a list with that element, a dict with that key) has no \<open>split\<close>.
\<close>

definition redact_email :: "json \<Rightarrow> exn + json" where
  "redact_email email =
     (if \<not> truthy email then Inr email
      else (case py_in ''@'' email of
              Inl e \<Rightarrow> Inl e
            | Inr False \<Rightarrow> Inr email
            | Inr True \<Rightarrow>
                (case email of
                   JStr s \<Rightarrow>
                     (case py_split1 CHR ''@'' s of
                        [user, domain] \<Rightarrow>
                          Inr (JStr (if user \<noteq> [] then take 1 user @ ''***@'' @ domain
                                     else ''***@'' @ domain))
                      | _ \<Rightarrow> Inl ValueError)
                 | _ \<Rightarrow> Inl AttributeError)))"

section \<open>Presenters\<close>

subsection \<open>csm-dashboard.py: \<open>format_timeline_summary\<close>\<close>

text \<open>
  One round of the loop over \<open>enumerate(activities, 1)\<close>: the subject is cut with
  \<open>[:50]\<close> first, and a cut of length exactly 50 gets the three dots.
\<close>

definition format_timeline_summary_item :: "nat \<Rightarrow> json \<Rightarrow> exn + line list" where
  "format_timeline_summary_item i activity =
     exn_bind (py_get activity ''Subject'' (JStr ''No subject'')) (\<lambda>got.
     exn_bind (py_slice_to 50 got) (\<lambda>subject.
     exn_bind (py_get activity ''GsCompanyId'' (JStr ''No company ID'')) (\<lambda>company_id.
     exn_bind (if truthy subject
               then exn_bind (py_len subject) (\<lambda>n.
                      if n = 50 then py_add_str subject ''...'' else Inr subject)
               else Inr subject) (\<lambda>subject'.
     Inr [[T ''   '', N i, T ''. '', U 0x1F4E7, T '' '', V subject'],
          [T ''      '', U 0x1F3E2, T '' Company ID: '', V company_id]]))))"

fun format_timeline_summary_loop :: "nat \<Rightarrow> json list \<Rightarrow> exn + line list" where
  "format_timeline_summary_loop i [] = Inr []"
| "format_timeline_summary_loop i (activity # rest) =
     (case format_timeline_summary_item i activity of
        Inl e \<Rightarrow> Inl e
      | Inr ls \<Rightarrow>
          (case format_timeline_summary_loop (Suc i) rest of
             Inl e \<Rightarrow> Inl e
           | Inr more \<Rightarrow> Inr (ls @ more)))"

definition format_timeline_summary :: "json \<Rightarrow> exn + line list" where
  "format_timeline_summary activities =
     (if \<not> truthy activities then Inr [[T ''   No activities found'']]
      else exn_bind (py_len activities) (\<lambda>n.
           exn_bind (py_iter activities) (\<lambda>items.
           exn_bind (format_timeline_summary_loop 1 items) (\<lambda>ls.
           Inr ([T ''   '', U 0x1F4CA, T '' Found '', N n, T '' recent activities:''] # ls)))))"

subsection \<open>timeline-viewer.py: \<open>format_timeline_data\<close>\<close>

text \<open>
  The shape test both scripts apply to the \<open>data\<close> field: a dict with a \<open>records\<close> key
  gives that entry, a list gives itself, anything else is refused.
\<close>

fun page_records :: "json \<Rightarrow> json option" where
  "page_records (JObj kvs) = map_of kvs ''records''"
| "page_records (JArr xs) = Some (JArr xs)"
| "page_records _ = None"

text \<open>\<open>s.replace('Z', '+00:00')\<close>.\<close>

definition replace_Z :: "string \<Rightarrow> string" where
  "replace_Z s = concat (map (\<lambda>c. if c = CHR ''Z'' then ''+00:00'' else [c]) s)"

text \<open>
  One date field.  \<open>datetime.fromisoformat(...)\<close> followed by \<open>strftime\<close> is the
  library's: it is the parameter \<open>fmt\<close>, \<open>None\<close> where it raises.  The membership test
  and the subscript stand outside the \<open>try\<close>, the \<open>replace\<close> inside it.
\<close>

definition try_date_field :: "(string \<Rightarrow> string option) \<Rightarrow> json \<Rightarrow> string \<Rightarrow> exn + string option" where
  "try_date_field fmt activity date_field =
     exn_bind (py_in date_field activity) (\<lambda>present.
       if \<not> present then Inr None
       else exn_bind (py_getitem activity date_field) (\<lambda>v.
         if \<not> truthy v then Inr None
         else (case v of JStr s \<Rightarrow> Inr (fmt (replace_Z s)) | _ \<Rightarrow> Inr None)))"

definition activity_date :: "(string \<Rightarrow> string option) \<Rightarrow> json \<Rightarrow> exn + string" where
  "activity_date fmt activity =
     exn_bind (try_date_field fmt activity ''ActivityDate'') (\<lambda>r.
       case r of
         Some d \<Rightarrow> Inr d
       | None \<Rightarrow>
           exn_bind (try_date_field fmt activity ''CreatedDate'') (\<lambda>r'.
             case r' of Some d \<Rightarrow> Inr d | None \<Rightarrow> Inr ''Unknown date''))"

definition format_timeline_data_item ::
  "(string \<Rightarrow> string option) \<Rightarrow> nat \<Rightarrow> json \<Rightarrow> exn + line list" where
  "format_timeline_data_item fmt i activity =
     exn_bind (activity_date fmt activity) (\<lambda>date_str.
     exn_bind (py_get activity ''contextname'' (JStr ''Unknown'')) (\<lambda>context.
     exn_bind (py_get activity ''Subject'' (JStr ''No subject'')) (\<lambda>got.
     exn_bind (if truthy got
               then exn_bind (py_len got) (\<lambda>n.
                      if n > 50 then exn_bind (py_slice_to 50 got) (\<lambda>cut. py_add_str cut ''...'')
                      else Inr got)
               else Inr got) (\<lambda>subject.
     exn_bind (py_get activity ''Gsid'' (JStr ''Unknown'')) (\<lambda>g.
     exn_bind (py_slice_to 10 g) (\<lambda>g10.
     exn_bind (py_add_str g10 ''...'') (\<lambda>gsid.
     Inr ([[T ''   '', N i, T ''. ['', T date_str, T ''] '', V context, T '' context'']]
          @ (if truthy subject \<and> subject \<noteq> JStr ''No subject''
             then [[T ''      '', U 0x1F4E7, T '' '', V subject]] else [])
          @ [[T ''      '', U 0x1F194, T '' '', V gsid]]))))))))"

fun format_timeline_data_loop ::
  "(string \<Rightarrow> string option) \<Rightarrow> nat \<Rightarrow> json list \<Rightarrow> exn + line list" where
  "format_timeline_data_loop fmt i [] = Inr []"
| "format_timeline_data_loop fmt i (activity # rest) =
     (case format_timeline_data_item fmt i activity of
        Inl e \<Rightarrow> Inl e
      | Inr ls \<Rightarrow>
          (case format_timeline_data_loop fmt (Suc i) rest of
             Inl e \<Rightarrow> Inl e
           | Inr more \<Rightarrow> Inr (ls @ more)))"

definition format_timeline_data :: "(string \<Rightarrow> string option) \<Rightarrow> json \<Rightarrow> exn + line list" where
  "format_timeline_data fmt data =
     (if \<not> truthy data then Inr [[T ''   No Timeline data available'']]
      else exn_bind (py_get data ''result'' JNull) (\<lambda>result.
        if \<not> truthy result then Inr [[T ''   No Timeline data available'']]
        else exn_bind (py_get data ''data'' (JObj [])) (\<lambda>records.
          case page_records records of
            None \<Rightarrow> Inr [[T ''   Unexpected data format from Timeline API'']]
          | Some activities \<Rightarrow>
              if \<not> truthy activities then Inr [[T ''   No activities found in Timeline'']]
              else exn_bind (py_len activities) (\<lambda>n.
                   exn_bind (py_iter activities) (\<lambda>items.
                   exn_bind (format_timeline_data_loop fmt 1 items) (\<lambda>ls.
                   Inr ([T ''   '', U 0x1F4CA, T '' Found '', N n, T '' Timeline activities:''] # ls)))))))"

section \<open>Result aggregator (csm-dashboard.py)\<close>

text \<open>\<open>s.split(c)\<close>: cut at every separator.\<close>

fun py_split :: "char \<Rightarrow> string \<Rightarrow> string list" where
  "py_split c [] = [[]]"
| "py_split c (x # xs) =
     (if x = c then [] # py_split c xs
      else (case py_split c xs of w # ws \<Rightarrow> (x # w) # ws | [] \<Rightarrow> [[x]]))"

text \<open>\<open>xs[1]\<close>.\<close>

fun py_second :: "'a list \<Rightarrow> exn + 'a" where
  "py_second (x # y # ys) = Inr y"
| "py_second _ = Inl IndexError"

text \<open>
  \<open>s.lower()\<close> on the letters A to Z; every other character is left as it is.  Python's
  \<open>str.lower()\<close> also maps letters outside ASCII, which a \<open>string\<close> of 8-bit characters
  does not hold as single characters: \<open>py_lower\<close> is \<open>str.lower()\<close> on ASCII text only,
  and nothing is claimed about domains with other letters.
\<close>

definition py_lower :: "string \<Rightarrow> string" where
  "py_lower s =
     map (\<lambda>c. case map_of (zip ''ABCDEFGHIJKLMNOPQRSTUVWXYZ'' ''abcdefghijklmnopqrstuvwxyz'') c of
                Some l \<Rightarrow> l
              | None \<Rightarrow> c) s"

text \<open>
  One round of the loop of \<open>extract_email_domains\<close>: the domain appended for a contact,
  if any.
\<close>

definition extract_email_domains_item :: "json \<Rightarrow> exn + string option" where
  "extract_email_domains_item contact =
     exn_bind (py_get contact ''Person_ID__gr.Email'' (JStr [])) (\<lambda>email.
       if \<not> truthy email then Inr None
       else exn_bind (py_in ''@'' email) (\<lambda>has_at.
         if \<not> has_at then Inr None
         else (case email of
                 JStr s \<Rightarrow> exn_bind (py_second (py_split CHR ''@'' s)) (\<lambda>d. Inr (Some (py_lower d)))
               | _ \<Rightarrow> Inl AttributeError)))"

fun extract_email_domains_loop :: "json list \<Rightarrow> exn + string list" where
  "extract_email_domains_loop [] = Inr []"
| "extract_email_domains_loop (contact # rest) =
     (case extract_email_domains_item contact of
        Inl e \<Rightarrow> Inl e
      | Inr d \<Rightarrow>
          (case extract_email_domains_loop rest of
             Inl e \<Rightarrow> Inl e
           | Inr ds \<Rightarrow> Inr ((case d of None \<Rightarrow> [] | Some x \<Rightarrow> [x]) @ ds)))"

text \<open>
  \<open>collections.Counter\<close> over a list: a dict from element to count, its items in the order
  the elements were first seen.
\<close>

fun counter_add :: "string \<Rightarrow> (string \<times> nat) list \<Rightarrow> (string \<times> nat) list" where
  "counter_add k [] = [(k, 1)]"
| "counter_add k ((k', n) # rest) =
     (if k = k' then (k', Suc n) # rest else (k', n) # counter_add k rest)"

definition Counter :: "string list \<Rightarrow> (string \<times> nat) list" where
  "Counter xs = foldl (\<lambda>c k. counter_add k c) [] xs"

definition extract_email_domains :: "json \<Rightarrow> exn + (string \<times> nat) list" where
  "extract_email_domains contacts =
     exn_bind (py_iter contacts) (\<lambda>items.
     exn_bind (extract_email_domains_loop items) (\<lambda>domains.
       if domains \<noteq> [] then Inr (Counter domains) else Inr []))"

text \<open>
  The selection in \<open>main\<close>:
  \<open>max(domain_counts.items(), key=lambda x: x[1])[0] if domain_counts else "Unknown"\<close>.
  \<open>max\<close> keeps the first item among those of the largest count.
\<close>

fun max_item :: "(string \<times> nat) \<Rightarrow> (string \<times> nat) list \<Rightarrow> (string \<times> nat)" where
  "max_item best [] = best"
| "max_item best (x # xs) = max_item (if snd best < snd x then x else best) xs"

definition primary_domain :: "(string \<times> nat) list \<Rightarrow> string" where
  "primary_domain domain_counts =
     (case domain_counts of [] \<Rightarrow> ''Unknown'' | x # xs \<Rightarrow> fst (max_item x xs))"

section \<open>The remote API and the console\<close>

text \<open>
  \<open>requests.post(url, headers=..., data=json.dumps(query), timeout=...)\<close> is a
  \<open>Post\<close> with the query document itself as its third argument.  The answer is either a
  \<open>requests.RequestException\<close> with its message (a network error, a timeout), or a
  response: the status code, the text, and the document \<open>resp.json()\<close> gives (\<open>None\<close>
  when the text is not JSON; \<open>requests\<close> then raises its own \<open>JSONDecodeError\<close>, a
  \<open>RequestException\<close> since release 2.27, and the model handles it as one).
  The remote service is a function of the request: no script sends the same request twice
  in one run.  Python's \<open>None\<close> is \<open>JNull\<close>.
\<close>

datatype request = Post string "(string \<times> string) list" json nat

datatype reply = RequestException string | Response int string "json option"

type_synonym remote = "request \<Rightarrow> reply"

record world =
  console :: "line list"
  posted :: "request list"

definition py_print :: "line \<Rightarrow> world \<Rightarrow> world" where
  "py_print l w = w\<lparr>console := console w @ [l]\<rparr>"

definition post :: "remote \<Rightarrow> request \<Rightarrow> world \<Rightarrow> reply \<times> world" where
  "post remote req w = (remote req, w\<lparr>posted := posted w @ [req]\<rparr>)"

text \<open>\<open>domain.rstrip('/')\<close> followed by the path of the endpoint.\<close>

definition api_url :: "string \<Rightarrow> string \<Rightarrow> string" where
  "api_url domain path = rev (dropWhile (\<lambda>c. c = CHR ''/'') (rev domain)) @ path"

definition api_headers :: "string \<Rightarrow> (string \<times> string) list" where
  "api_headers access_key =
     [(''Content-Type'', ''application/json''), (''Accept'', ''application/json''),
      (''accesskey'', access_key)]"

section \<open>Paginated fetcher (contacts-lookup.py)\<close>

definition contacts_query :: "json \<Rightarrow> int \<Rightarrow> int \<Rightarrow> json" where
  "contacts_query company_gsid limit offset =
     JObj [(''select'',
            JArr [JStr ''Gsid'', JStr ''Person_ID__gr.Gsid'', JStr ''Person_ID__gr.FirstName'',
                  JStr ''Person_ID__gr.LastName'', JStr ''Person_ID__gr.Email'', JStr ''Role'',
                  JStr ''Title'', JStr ''Active'']),
           (''where'',
            JObj [(''conditions'',
                   JArr [JObj [(''name'', JStr ''Company_ID''), (''alias'', JStr ''A''),
                               (''operator'', JStr ''EQ''), (''value'', JArr [company_gsid])],
                         JObj [(''name'', JStr ''Active''), (''alias'', JStr ''B''),
                               (''operator'', JStr ''EQ''), (''value'', JArr [JBool True])]]),
                  (''expression'', JStr ''A AND B'')]),
           (''orderBy'', JObj [(''Person_ID__gr.LastName'', JStr ''asc'')]),
           (''limit'', JNum limit),
           (''offset'', JNum offset)]"

text \<open>
  One round of the \<open>while True\<close> loop up to \<open>contacts.extend(records)\<close> and the batch
  line: \<open>Inl\<close> is an exception the \<open>except requests.RequestException\<close> clause does not
  catch, \<open>Inr None\<close> is \<open>return None\<close>, and \<open>Inr (Some (items, n))\<close> hands on the
  items \<open>extend\<close> appends and \<open>len(records)\<close>.
\<close>

definition fetch_contacts_page ::
  "remote \<Rightarrow> string \<Rightarrow> (string \<times> string) list \<Rightarrow> json \<Rightarrow> int \<Rightarrow> int \<Rightarrow> world
   \<Rightarrow> (exn + (json list \<times> nat) option) \<times> world" where
  "fetch_contacts_page remote url headers company_gsid limit offset w =
     (case post remote (Post url headers (contacts_query company_gsid limit offset) 15)
             (py_print [U 0x1F50D, T '' Querying contacts (offset: '', V (JNum offset),
                        T '', limit: '', V (JNum limit), T '')...''] w) of
        (RequestException e, w1) \<Rightarrow>
          (Inr None, py_print [T ''   '', U 0x274C, T '' Request error: '', T e] w1)
      | (Response status_code text js, w1) \<Rightarrow>
          if status_code \<noteq> 200
          then (Inr None, py_print [T ''   '', U 0x274C, T '' HTTP '', V (JNum status_code),
                                    T '': '', T (take 300 text)] w1)
          else (case js of
                  None \<Rightarrow>
                    (Inr None, py_print [T ''   '', U 0x274C, T '' Request error: '',
                                         T ''JSONDecodeError''] w1)
                | Some data \<Rightarrow>
                    (case py_get data ''result'' JNull of
                       Inl x \<Rightarrow> (Inl x, w1)
                     | Inr result \<Rightarrow>
                         if \<not> truthy result
                         then (case py_get data ''errorDesc'' (JStr ''Unknown error'') of
                                 Inl x \<Rightarrow> (Inl x, w1)
                               | Inr desc \<Rightarrow>
                                   (Inr None, py_print [T ''   '', U 0x274C, T '' API Error: '',
                                                        V desc] w1))
                         else (case py_get data ''data'' (JArr []) of
                                 Inl x \<Rightarrow> (Inl x, w1)
                               | Inr raw_data \<Rightarrow>
                                   (case page_records raw_data of
                                      None \<Rightarrow>
                                        (Inr None, py_print [T ''   '', U 0x274C,
                                                             T '' Unexpected data format''] w1)
                                    | Some records \<Rightarrow>
                                        (case py_iter records of
                                           Inl x \<Rightarrow> (Inl x, w1)
                                         | Inr items \<Rightarrow>
                                             (case py_len records of
                                                Inl x \<Rightarrow> (Inl x, w1)
                                              | Inr n \<Rightarrow>
                                                  (Inr (Some (items, n)),
                                                   py_print [T ''   '', U 0x1F4CB, T '' Found '',
                                                             N n, T '' contacts in this batch'']
                                                     w1))))))))"

text \<open>
  The loop.  It ends when a page is shorter than \<open>limit\<close>, when a round returns \<open>None\<close>
  or raises; a service that keeps sending full pages keeps it running, and then the
  function has no result (\<open>None\<close> of the option type).
\<close>

partial_function (option) fetch_contacts_loop ::
  "remote \<Rightarrow> string \<Rightarrow> (string \<times> string) list \<Rightarrow> json \<Rightarrow> int \<Rightarrow> json list \<Rightarrow> int \<Rightarrow> world
   \<Rightarrow> ((exn + json) \<times> world) option" where
  "fetch_contacts_loop remote url headers company_gsid limit contacts offset w =
     (case fetch_contacts_page remote url headers company_gsid limit offset w of
        (Inl x, w') \<Rightarrow> Some (Inl x, w')
      | (Inr None, w') \<Rightarrow> Some (Inr JNull, w')
      | (Inr (Some (items, n)), w') \<Rightarrow>
          if int n < limit then Some (Inr (JArr (contacts @ items)), w')
          else fetch_contacts_loop remote url headers company_gsid limit (contacts @ items)
                 (offset + limit) w')"

definition fetch_contacts_by_company_gsid ::
  "remote \<Rightarrow> string \<Rightarrow> string \<Rightarrow> json \<Rightarrow> world \<Rightarrow> ((exn + json) \<times> world) option" where
  "fetch_contacts_by_company_gsid remote domain access_key company_gsid w =
     fetch_contacts_loop remote (api_url domain ''/v1/data/objects/query/company_person'')
       (api_headers access_key) company_gsid 1000 [] 0 w"

text \<open>
  What it means for the service to hold the records \<open>rs\<close> of a company: asked for the
  page at offset \<open>k * limit\<close>, it answers 200 with a truthy \<open>result\<close> and, in either
  shape of \<open>data\<close>, the records \<open>rs[k * limit : (k + 1) * limit]\<close>.  Only the pages up
  to the first short one matter.
\<close>

definition serves_records ::
  "remote \<Rightarrow> string \<Rightarrow> (string \<times> string) list \<Rightarrow> json \<Rightarrow> nat \<Rightarrow> json list \<Rightarrow> bool" where
  "serves_records remote url headers company_gsid page_size rs =
     list_all (\<lambda>k.
        case remote (Post url headers
               (contacts_query company_gsid (int page_size) (int (k * page_size))) 15) of
          RequestException e \<Rightarrow> False
        | Response status_code text js \<Rightarrow>
            status_code = 200 \<and>
            (case js of
               None \<Rightarrow> False
             | Some data \<Rightarrow>
                 (case py_get data ''result'' JNull of
                    Inl x \<Rightarrow> False
                  | Inr result \<Rightarrow>
                      truthy result \<and>
                      (case py_get data ''data'' (JArr []) of
                         Inl x \<Rightarrow> False
                       | Inr raw_data \<Rightarrow>
                           page_records raw_data =
                             Some (JArr (take page_size (drop (k * page_size) rs)))))))
       [0..<Suc (length rs div page_size)]"

text \<open>
  A service of that kind, for running the fetcher on concrete records: it reads
  \<open>limit\<close> and \<open>offset\<close> from the query.
\<close>

definition paged_service :: "json list \<Rightarrow> remote" where
  "paged_service rs req =
     (case req of
        Post url headers query t \<Rightarrow>
          (case (py_get query ''limit'' JNull, py_get query ''offset'' JNull) of
             (Inr (JNum limit), Inr (JNum offset)) \<Rightarrow>
               Response 200 []
                 (Some (JObj [(''result'', JBool True),
                              (''data'',
                               JObj [(''records'',
                                      JArr (take (nat limit) (drop (nat offset) rs)))])]))
           | _ \<Rightarrow> Response 400 ''bad request'' None))"

text \<open>
  The answers that end a fetch with \<open>None\<close> for a reason of the service: a status other
  than 200, a body whose \<open>result\<close> is falsy, a body whose \<open>data\<close> is neither a dict
  with a \<open>records\<close> entry nor a list.
\<close>

definition aborts :: "reply \<Rightarrow> bool" where
  "aborts r =
     (case r of
        RequestException e \<Rightarrow> False
      | Response status_code text js \<Rightarrow>
          status_code \<noteq> 200 \<or>
          (case js of
             Some (JObj kvs) \<Rightarrow>
               \<not> truthy (case map_of kvs ''result'' of Some v \<Rightarrow> v | None \<Rightarrow> JNull) \<or>
               page_records (case map_of kvs ''data'' of Some v \<Rightarrow> v | None \<Rightarrow> JArr []) = None
           | _ \<Rightarrow> False))"

section \<open>Configuration\<close>


definition given :: "string option \<Rightarrow> bool" where
  "given x = (case x of None \<Rightarrow> False | Some s \<Rightarrow> s \<noteq> [])"


definition str_of :: "string option \<Rightarrow> string" where
  "str_of x = (case x of None \<Rightarrow> [] | Some s \<Rightarrow> s)"


text \<open>
  How \<open>main()\<close> ends, and the exit code of a process that ran it: \<open>Inr ()\<close> is the
  normal end of \<open>main\<close> (exit code 0), \<open>Inl (SystemExit n)\<close> is \<open>sys.exit(n)\<close>, any
  other \<open>Inl\<close> is an exception nothing catches, which ends the interpreter with a
  traceback and exit code 1.
\<close>

definition exit_code :: "exn + unit \<Rightarrow> int" where
  "exit_code r = (case r of Inr u \<Rightarrow> 0 | Inl (SystemExit n) \<Rightarrow> n | Inl x \<Rightarrow> 1)"

text \<open>Printing the lines of a formatted text.\<close>

definition print_lines :: "line list \<Rightarrow> world \<Rightarrow> world" where
  "print_lines ls w = w\<lparr>console := console w @ ls\<rparr>"


section \<open>contacts-lookup.py\<close>






section \<open>company-lookup.py\<close>

definition company_query :: "json \<Rightarrow> json" where
  "company_query company_id =
     JObj [(''select'', JArr [JStr ''Gsid'', JStr ''Name'', JStr ''Industry'', JStr ''ModifiedDate'']),
           (''where'',
            JObj [(''conditions'',
                   JArr [JObj [(''name'', JStr ''Gsid''), (''alias'', JStr ''A''),
                               (''value'', JArr [company_id]), (''operator'', JStr ''EQ'')]]),
                  (''expression'', JStr ''A'')]),
           (''limit'', JNum 1),
           (''offset'', JNum 0)]"

definition lookup_company_by_id ::
  "remote \<Rightarrow> string \<Rightarrow> string \<Rightarrow> string \<Rightarrow> world \<Rightarrow> (exn + json) \<times> world" where
  "lookup_company_by_id remote domain access_key company_id w =
     (case post remote
             (Post (api_url domain ''/v1/data/objects/query/Company'') (api_headers access_key)
                (company_query (JStr company_id)) 15)
             (py_print [U 0x1F50D, T '' Looking up company with ID: '', T company_id] w) of
        (RequestException e, w1) \<Rightarrow>
          (Inr JNull, py_print [T ''   '', U 0x274C, T '' Request error: '', T e] w1)
      | (Response status_code text js, w1) \<Rightarrow>
          if status_code = 200
          then (case js of
                  None \<Rightarrow>
                    (Inr JNull, py_print [T ''   '', U 0x274C, T '' Request error: '',
                                          T ''JSONDecodeError''] w1)
                | Some data \<Rightarrow> (Inr data, w1))
          else (Inr JNull, py_print [T ''   '', U 0x274C, T '' HTTP '', V (JNum status_code),
                                     T '': '', T (take 300 text)] w1))"

text \<open>\<open>xs[0]\<close>: the first character of a str, the first element of a list.\<close>

fun py_first :: "json \<Rightarrow> exn + json" where
  "py_first (JStr (c # s)) = Inr (JStr [c])"
| "py_first (JStr []) = Inl IndexError"
| "py_first (JArr (x # xs)) = Inr x"
| "py_first (JArr []) = Inl IndexError"
| "py_first (JObj kvs) = Inl KeyError"
| "py_first _ = Inl TypeError"




section \<open>timeline-viewer.py\<close>

definition timeline_query :: "json \<Rightarrow> int \<Rightarrow> json" where
  "timeline_query user_email limit =
     JObj [(''select'',
            JArr [JStr ''Gsid'', JStr ''CreatedDate'', JStr ''Subject'', JStr ''Notes'',
                  JStr ''ActivityDate'', JStr ''contextname'', JStr ''AuthorId'',
                  JStr ''GsCompanyId'', JStr ''GsRelationshipId'']),
           (''where'',
            JObj [(''conditions'',
                   JArr [JObj [(''name'', JStr ''AuthorId__gr.Email''), (''alias'', JStr ''A''),
                               (''value'', JArr [user_email]), (''operator'', JStr ''EQ'')]]),
                  (''expression'', JStr ''A'')]),
           (''orderBy'', JObj [(''CreatedDate'', JStr ''desc'')]),
           (''limit'', JNum limit),
           (''offset'', JNum 0)]"

definition safe_timeline_query ::
  "remote \<Rightarrow> string \<Rightarrow> string \<Rightarrow> string \<Rightarrow> int \<Rightarrow> world \<Rightarrow> (exn + json) \<times> world" where
  "safe_timeline_query remote domain access_key user_email limit w =
     (case post remote
             (Post (api_url domain ''/v1/data/objects/query/activity_timeline'')
                (api_headers access_key) (timeline_query (JStr user_email) limit) 15)
             (py_print [U 0x1F50D, T '' Querying Timeline activities for '', T user_email,
                        T '' (limit: '', V (JNum limit), T '')...''] w) of
        (RequestException e, w1) \<Rightarrow>
          (Inr JNull, py_print [T ''   '', U 0x274C, T '' Request error: '', T e] w1)
      | (Response status_code text js, w1) \<Rightarrow>
          if status_code = 200
          then (case js of
                  None \<Rightarrow>
                    (Inr JNull, py_print [T ''   '', U 0x274C, T '' Request error: '',
                                          T ''JSONDecodeError''] w1)
                | Some data \<Rightarrow> (Inr data, w1))
          else (Inr JNull, py_print [T ''   '', U 0x274C, T '' HTTP '', V (JNum status_code),
                                     T '': '', T (take 200 text)] w1))"



section \<open>csm-dashboard.py\<close>

text \<open>
  The timeline query is the document of timeline-viewer.py, key for key.  The answer of
  \<open>get_timeline_activities\<close> is whatever stands under \<open>data.records\<close>, or \<open>None\<close>.
\<close>

definition get_timeline_activities ::
  "remote \<Rightarrow> string \<Rightarrow> string \<Rightarrow> string \<Rightarrow> int \<Rightarrow> world \<Rightarrow> (exn + json) \<times> world" where
  "get_timeline_activities remote domain access_key user_email limit w =
     (case post remote
             (Post (api_url domain ''/v1/data/objects/query/activity_timeline'')
                (api_headers access_key) (timeline_query (JStr user_email) limit) 15)
             (py_print [U 0x1F4E7, T '' Getting '', V (JNum limit),
                        T '' recent timeline activities for '', T user_email, T ''...''] w) of
        (RequestException e, w1) \<Rightarrow>
          (Inr JNull, py_print [T ''   '', U 0x274C, T '' Request error: '', T e] w1)
      | (Response status_code text js, w1) \<Rightarrow>
          if status_code = 200
          then (case js of
                  None \<Rightarrow>
                    (Inr JNull, py_print [T ''   '', U 0x274C, T '' Request error: '',
                                          T ''JSONDecodeError''] w1)
                | Some data \<Rightarrow>
                    (case py_get data ''result'' JNull of
                       Inl x \<Rightarrow> (Inl x, w1)
                     | Inr result \<Rightarrow>
                         if truthy result
                         then (case exn_bind (py_get data ''data'' (JObj [])) (\<lambda>d.
                                      exn_bind (py_get d ''records'' (JArr [])) (\<lambda>activities.
                                      exn_bind (py_len activities) (\<lambda>n. Inr (activities, n)))) of
                                 Inl x \<Rightarrow> (Inl x, w1)
                               | Inr (activities, n) \<Rightarrow>
                                   (Inr activities,
                                    py_print [T ''   '', U 0x2705, T '' Found '', N n,
                                              T '' activities''] w1))
                         else (case py_get data ''errorDesc'' JNull of
                                 Inl x \<Rightarrow> (Inl x, w1)
                               | Inr desc \<Rightarrow>
                                   (Inr JNull, py_print [T ''   '', U 0x274C, T '' API Error: '',
                                                         V desc] w1))))
          else (Inr JNull, py_print [T ''   '', U 0x274C, T '' HTTP '', V (JNum status_code),
                                     T '': '', T (take 200 text)] w1))"

definition company_name_query :: "json \<Rightarrow> json" where
  "company_name_query company_gsid =
     JObj [(''select'', JArr [JStr ''Gsid'', JStr ''Name'', JStr ''Industry'']),
           (''where'',
            JObj [(''conditions'',
                   JArr [JObj [(''name'', JStr ''Gsid''), (''alias'', JStr ''A''),
                               (''value'', JArr [company_gsid]), (''operator'', JStr ''EQ'')]]),
                  (''expression'', JStr ''A'')]),
           (''limit'', JNum 1),
           (''offset'', JNum 0)]"

text \<open>\<open>lookup_company_name\<close> prints nothing, whatever happens.\<close>

definition lookup_company_name ::
  "remote \<Rightarrow> string \<Rightarrow> string \<Rightarrow> json \<Rightarrow> world \<Rightarrow> (exn + json) \<times> world" where
  "lookup_company_name remote domain access_key company_gsid w =
     (case post remote
             (Post (api_url domain ''/v1/data/objects/query/Company'') (api_headers access_key)
                (company_name_query company_gsid) 10) w of
        (RequestException e, w1) \<Rightarrow> (Inr JNull, w1)
      | (Response status_code text js, w1) \<Rightarrow>
          if status_code = 200
          then (case js of
                  None \<Rightarrow> (Inr JNull, w1)
                | Some data \<Rightarrow>
                    (exn_bind (py_get data ''result'' JNull) (\<lambda>result.
                       if truthy result
                       then exn_bind (py_get data ''data'' (JObj [])) (\<lambda>d.
                            exn_bind (py_get d ''records'' (JArr [])) (\<lambda>companies.
                              if truthy companies then py_first companies else Inr JNull))
                       else Inr JNull), w1))
          else (Inr JNull, w1))"

definition company_contacts_query :: "json \<Rightarrow> int \<Rightarrow> json" where
  "company_contacts_query company_gsid limit =
     JObj [(''select'',
            JArr [JStr ''Person_ID__gr.FirstName'', JStr ''Person_ID__gr.LastName'',
                  JStr ''Person_ID__gr.Email'', JStr ''Title'']),
           (''where'',
            JObj [(''conditions'',
                   JArr [JObj [(''name'', JStr ''Company_ID''), (''alias'', JStr ''A''),
                               (''operator'', JStr ''EQ''), (''value'', JArr [company_gsid])],
                         JObj [(''name'', JStr ''Active''), (''alias'', JStr ''B''),
                               (''operator'', JStr ''EQ''), (''value'', JArr [JBool True])]]),
                  (''expression'', JStr ''A AND B'')]),
           (''orderBy'', JObj [(''Person_ID__gr.LastName'', JStr ''asc'')]),
           (''limit'', JNum limit),
           (''offset'', JNum 0)]"

text \<open>\<open>get_company_contacts\<close> answers every failure with the empty list, and prints nothing.\<close>

definition get_company_contacts ::
  "remote \<Rightarrow> string \<Rightarrow> string \<Rightarrow> json \<Rightarrow> int \<Rightarrow> world \<Rightarrow> (exn + json) \<times> world" where
  "get_company_contacts remote domain access_key company_gsid limit w =
     (case post remote
             (Post (api_url domain ''/v1/data/objects/query/company_person'')
                (api_headers access_key) (company_contacts_query company_gsid limit) 10) w of
        (RequestException e, w1) \<Rightarrow> (Inr (JArr []), w1)
      | (Response status_code text js, w1) \<Rightarrow>
          if status_code = 200
          then (case js of
                  None \<Rightarrow> (Inr (JArr []), w1)
                | Some data \<Rightarrow>
                    (exn_bind (py_get data ''result'' JNull) (\<lambda>result.
                       if truthy result
                       then exn_bind (py_get data ''data'' (JObj [])) (\<lambda>d.
                              py_get d ''records'' (JArr []))
                       else Inr (JArr [])), w1))
          else (Inr (JArr []), w1))"












section \<open>gainsight-api-hello-world.py\<close>

text \<open>
  \<open>resp.raise_for_status()\<close> raises an \<open>HTTPError\<close>, a \<open>RequestException\<close>, for a
  status from 400 to 599; the text of that error is the library's and is kept as the
  word and the status.  This script has no closing read-only line.
\<close>

definition hello_world_main ::
  "remote \<Rightarrow> (string \<Rightarrow> string option) \<Rightarrow> world \<Rightarrow> (exn + unit) \<times> world" where
  "hello_world_main remote environ w =
     (let domain = environ ''GAINSIGHT_DOMAIN'';
          access_key = environ ''GAINSIGHT_ACCESS_KEY''
      in if \<not> given domain \<or> \<not> given access_key
         then (Inl (SystemExit 1),
                py_print [T ''Missing env vars. Set GAINSIGHT_DOMAIN and GAINSIGHT_ACCESS_KEY.''] w)
         else
           (case post remote
                   (Post (api_url (str_of domain) ''/v1/users/services/list'')
                      (api_headers (str_of access_key))
                      (JObj [(''includeTotal'', JBool True), (''limit'', JNum 1), (''page'', JNum 0),
                             (''orderBy'', JObj [(''ModifiedDate'', JStr ''desc'')]),
                             (''select'', JArr [JStr ''Name'', JStr ''Email'', JStr ''SFDCUserName'',
                                                 JStr ''LicenseType'', JStr ''ModifiedDate''])])
                      20) w of
              (RequestException e, w1) \<Rightarrow>
                (Inr (), print_lines [[], [U 0x274C, T '' Request failed.''], [T e]] w1)
            | (Response status_code text js, w1) \<Rightarrow>
                (Inr (),
                 print_lines
                   ([[T ''HTTP '', V (JNum status_code)],
                     (case js of Some data \<Rightarrow> [Dumps data] | None \<Rightarrow> [T text])]
                    @ (if 400 \<le> status_code \<and> status_code < 600
                       then [[], [U 0x274C, T '' Request failed.''],
                             [T ''HTTPError '', V (JNum status_code)]]
                       else [[], [U 0x2705, T '' API key looks valid and endpoint reachable.'']]))
                   w1)))"

section \<open>Failing services and a complete configuration\<close>

text \<open>
  A remote call fails when it ends in a transport error or in a status other than 200.
\<close>

definition failed :: "reply \<Rightarrow> bool" where
  "failed r = (case r of RequestException e \<Rightarrow> True | Response status_code text js \<Rightarrow> status_code \<noteq> 200)"

text \<open>Two services for concrete runs: one that cannot be reached, one that answers 404.\<close>

definition unreachable :: remote where
  "unreachable req = RequestException ''Connection timed out''"


text \<open>An environment with every variable the scripts read, and a bare command line.\<close>

definition full_environ :: "string \<Rightarrow> string option" where
  "full_environ name =
     map_of [(''GAINSIGHT_DOMAIN'', ''https://demo.gainsightcloud.example/''),
             (''GAINSIGHT_ACCESS_KEY'', ''k3y''),
             (''GAINSIGHT_COMPANY_ID'', ''1P02ABCDEFGH''),
             (''GAINSIGHT_USER_EMAIL'', ''csm@corp.example'')] name"


definition fresh :: world where
  "fresh = \<lparr>console = [], posted = []\<rparr>"

section \<open>Answers of the expected shape\<close>

text \<open>
  The shape the API documents for a success is \<open>{result, data: {records: [...]}}\<close>,
  each record a dict.  The scripts cut or scan a few fields of a record, and those must be
  strings (or absent, or \<open>null\<close> where the code tests the value first):
  \<^item> an activity of csm-dashboard.py: \<open>Subject\<close> a string or absent, \<open>GsCompanyId\<close> a
    string, \<open>null\<close> or absent;
  \<^item> an activity of timeline-viewer.py: \<open>Subject\<close> a string, \<open>null\<close> or absent, \<open>Gsid\<close>
    a string or absent;
  \<^item> a contact: \<open>Person_ID__gr.Email\<close> a string, \<open>null\<close> or absent;
  \<^item> a company: a dict.
\<close>

fun is_str :: "json \<Rightarrow> bool" where
  "is_str (JStr s) = True"
| "is_str _ = False"

fun is_dict :: "json \<Rightarrow> bool" where
  "is_dict (JObj kvs) = True"
| "is_dict _ = False"

definition null_or_str :: "json \<Rightarrow> bool" where
  "null_or_str v = (is_str v \<or> v = JNull)"

definition plain_activity :: "json \<Rightarrow> bool" where
  "plain_activity activity =
     (case activity of
        JObj kvs \<Rightarrow>
          (case map_of kvs ''Subject'' of None \<Rightarrow> True | Some v \<Rightarrow> is_str v) \<and>
          (case map_of kvs ''GsCompanyId'' of None \<Rightarrow> True | Some v \<Rightarrow> is_str v \<or> v = JNull)
      | _ \<Rightarrow> False)"

definition viewer_activity :: "json \<Rightarrow> bool" where
  "viewer_activity activity =
     (case activity of
        JObj kvs \<Rightarrow>
          (case map_of kvs ''Subject'' of None \<Rightarrow> True | Some v \<Rightarrow> null_or_str v) \<and>
          (case map_of kvs ''Gsid'' of None \<Rightarrow> True | Some v \<Rightarrow> is_str v)
      | _ \<Rightarrow> False)"

definition plain_contact :: "json \<Rightarrow> bool" where
  "plain_contact contact =
     (case contact of
        JObj kvs \<Rightarrow>
          (case map_of kvs ''Person_ID__gr.Email'' of None \<Rightarrow> True | Some v \<Rightarrow> null_or_str v)
      | _ \<Rightarrow> False)"

text \<open>
  csm-dashboard.py reads activities, companies and contacts from the same service, so for
  it a record is both a plain activity and a plain contact.
\<close>

definition dashboard_record :: "json \<Rightarrow> bool" where
  "dashboard_record r = (plain_activity r \<and> plain_contact r)"

text \<open>
  An answer a script is written for: a failed call (a transport error, a status other than
  200, a text that is not JSON), or a 200 answer that is a dict, and, when its \<open>result\<close>
  is truthy, has for \<open>data\<close> (where present) a dict whose \<open>records\<close> (where present) is a
  list of records of the kind \<open>p\<close>.
\<close>

definition expected :: "(json \<Rightarrow> bool) \<Rightarrow> reply \<Rightarrow> bool" where
  "expected p r =
     (case r of
        RequestException e \<Rightarrow> True
      | Response status_code text js \<Rightarrow>
          status_code \<noteq> 200 \<or>
          (case js of
             None \<Rightarrow> True
           | Some (JObj b) \<Rightarrow>
               \<not> truthy (case map_of b ''result'' of Some v \<Rightarrow> v | None \<Rightarrow> JNull) \<or>
               (case map_of b ''data'' of
                  None \<Rightarrow> True
                | Some (JObj d) \<Rightarrow>
                    (case map_of d ''records'' of
                       None \<Rightarrow> True
                     | Some (JArr xs) \<Rightarrow> list_all p xs
                     | Some v \<Rightarrow> False)
                | Some v \<Rightarrow> False)
           | Some v \<Rightarrow> False))"

text \<open>A 200 answer with a truthy \<open>result\<close> and at least one record.\<close>

definition has_records :: "reply \<Rightarrow> bool" where
  "has_records r =
     (case r of
        RequestException e \<Rightarrow> False
      | Response status_code text js \<Rightarrow>
          status_code = 200 \<and>
          (case js of
             Some (JObj b) \<Rightarrow>
               truthy (case map_of b ''result'' of Some v \<Rightarrow> v | None \<Rightarrow> JNull) \<and>
               (case map_of b ''data'' of
                  Some (JObj d) \<Rightarrow>
                    (case map_of d ''records'' of Some (JArr (x # xs)) \<Rightarrow> True | _ \<Rightarrow> False)
                | _ \<Rightarrow> False)
           | _ \<Rightarrow> False))"

text \<open>
  The paginated fetcher goes on after the page at \<open>offset\<close> when that round hands on at
  least \<open>limit\<close> records.  (What a round hands on does not depend on the console.)
\<close>

definition goes_on ::
  "remote \<Rightarrow> string \<Rightarrow> (string \<times> string) list \<Rightarrow> json \<Rightarrow> int \<Rightarrow> int \<Rightarrow> bool" where
  "goes_on remote url headers company_gsid limit offset =
     (case fst (fetch_contacts_page remote url headers company_gsid limit offset
                  \<lparr>console = [], posted = []\<rparr>) of
        Inr (Some (items, n)) \<Rightarrow> \<not> int n < limit
      | _ \<Rightarrow> False)"

text \<open>
  A service for concrete runs that answers 200 with one activity whose \<open>Subject\<close> and
  \<open>Gsid\<close> are \<open>null\<close>.
\<close>

definition null_fields :: remote where
  "null_fields req =
     Response 200 []
       (Some (JObj [(''result'', JBool True),
                    (''data'',
                     JObj [(''records'',
                            JArr [JObj [(''Gsid'', JNull), (''Subject'', JNull),
                                        (''GsCompanyId'', JStr ''1P02ABCDEFGH'')]])])]))"

section \<open>Properties of the redaction transform\<close>

lemma is_substr_single: "is_substr [c] s = (c \<in> set s)"
  by (induction s) auto

lemma py_split1_none: "c \<notin> set s \<Longrightarrow> py_split1 c s = [s]"
  by (induction s) auto

lemma py_split1_first: "c \<notin> set u \<Longrightarrow> py_split1 c (u @ c # d) = [u, d]"
  by (induction u) auto

lemma redact_email_no_at: "CHR ''@'' \<notin> set s \<Longrightarrow> redact_email (JStr s) = Inr (JStr s)"
  by (simp add: redact_email_def is_substr_single)

lemma redact_email_at:
  "CHR ''@'' \<notin> set u \<Longrightarrow>
   redact_email (JStr (u @ CHR ''@'' # d)) = Inr (JStr (take 1 u @ ''***@'' @ d))"
  by (simp add: redact_email_def is_substr_single py_split1_first)

lemma split_at_first:
  "c \<in> set s \<Longrightarrow> s = takeWhile (\<lambda>x. x \<noteq> c) s @ c # tl (dropWhile (\<lambda>x. x \<noteq> c) s)"
  by (induction s) auto

lemma takeWhile_not_in: "c \<notin> set (takeWhile (\<lambda>x. x \<noteq> c) s)"
  by (induction s) auto

text \<open>
  Claim C5.  On a string that holds an \<open>@\<close>, \<open>redact_email\<close> returns the first character
  of the local part (the text before the first \<open>@\<close>), then \<open>***@\<close>, then the whole text
  after that \<open>@\<close>, unchanged.  A string with no \<open>@\<close>, the empty string and \<open>None\<close>
  come back as they are.  The function reads nothing but its argument.
\<close>

theorem redact_email_masks:
  "(CHR ''@'' \<in> set s \<longrightarrow>
      redact_email (JStr s) =
        Inr (JStr (take 1 (takeWhile (\<lambda>c. c \<noteq> CHR ''@'') s) @ ''***@'' @
                   tl (dropWhile (\<lambda>c. c \<noteq> CHR ''@'') s))))
   \<and> (CHR ''@'' \<notin> set s \<longrightarrow> redact_email (JStr s) = Inr (JStr s))
   \<and> redact_email (JStr []) = Inr (JStr [])
   \<and> redact_email JNull = Inr JNull"
proof (intro conjI impI)
  assume a: "CHR ''@'' \<in> set s"
  let ?u = "takeWhile (\<lambda>c. c \<noteq> CHR ''@'') s"
  let ?d = "tl (dropWhile (\<lambda>c. c \<noteq> CHR ''@'') s)"
  have "redact_email (JStr (?u @ CHR ''@'' # ?d)) = Inr (JStr (take 1 ?u @ ''***@'' @ ?d))"
    by (rule redact_email_at) (rule takeWhile_not_in)
  with split_at_first [OF a] show "redact_email (JStr s) = Inr (JStr (take 1 ?u @ ''***@'' @ ?d))"
    by simp
next
  assume "CHR ''@'' \<notin> set s"
  then show "redact_email (JStr s) = Inr (JStr s)" by (rule redact_email_no_at)
next
  show "redact_email (JStr []) = Inr (JStr [])" by (simp add: redact_email_def)
next
  show "redact_email JNull = Inr JNull" by (simp add: redact_email_def)
qed

theorem redact_email_masks_witness:
  "redact_email (JStr ''alice@example.com'') = Inr (JStr ''a***@example.com'')
   \<and> redact_email (JStr ''@example.com'') = Inr (JStr ''***@example.com'')
   \<and> redact_email (JStr ''n/a'') = Inr (JStr ''n/a'')"
  using redact_email_masks [of "''alice@example.com''"] redact_email_masks [of "''@example.com''"]
    redact_email_masks [of "''n/a''"]
  by simp

text \<open>
  Claim C9.  Redacting twice is redacting once on every string that holds no \<open>@\<close> or has
  at least one character before its first \<open>@\<close>.  On a string that starts with \<open>@\<close> the
  second application puts one more \<open>*\<close> in front.
\<close>

theorem redact_email_idempotent:
  "(CHR ''@'' \<notin> set s \<or> takeWhile (\<lambda>c. c \<noteq> CHR ''@'') s \<noteq> [] \<longrightarrow>
      (\<exists>r. redact_email (JStr s) = Inr r \<and> redact_email r = Inr r))
   \<and> (\<exists>r. redact_email (JStr (CHR ''@'' # d)) = Inr (JStr r)
          \<and> redact_email (JStr r) = Inr (JStr (CHR ''*'' # r)))"
proof (intro conjI impI)
  assume h: "CHR ''@'' \<notin> set s \<or> takeWhile (\<lambda>c. c \<noteq> CHR ''@'') s \<noteq> []"
  show "\<exists>r. redact_email (JStr s) = Inr r \<and> redact_email r = Inr r"
  proof (cases "CHR ''@'' \<in> set s")
    case False
    then show ?thesis by (simp add: redact_email_no_at)
  next
    case True
    let ?u = "takeWhile (\<lambda>c. c \<noteq> CHR ''@'') s"
    let ?d = "tl (dropWhile (\<lambda>c. c \<noteq> CHR ''@'') s)"
    from True h have u: "?u \<noteq> []" by simp
    have nu: "CHR ''@'' \<notin> set ?u" by (rule takeWhile_not_in)
    have s: "s = ?u @ CHR ''@'' # ?d" by (rule split_at_first [OF True])
    have one: "redact_email (JStr s) = Inr (JStr (take 1 ?u @ ''***@'' @ ?d))"
      using redact_email_at [OF nu, of ?d] s by simp
    have nm: "CHR ''@'' \<notin> set (take 1 ?u @ ''***'')"
      using nu by (auto dest: in_set_takeD)
    have "redact_email (JStr ((take 1 ?u @ ''***'') @ CHR ''@'' # ?d)) =
          Inr (JStr (take 1 (take 1 ?u @ ''***'') @ ''***@'' @ ?d))"
      by (rule redact_email_at [OF nm])
    moreover have "take 1 (take 1 ?u @ ''***'') = take 1 ?u"
      using u by (cases ?u) simp_all
    ultimately have two: "redact_email (JStr (take 1 ?u @ ''***@'' @ ?d)) =
          Inr (JStr (take 1 ?u @ ''***@'' @ ?d))"
      by simp
    from one two show ?thesis by blast
  qed
next
  have one: "redact_email (JStr (CHR ''@'' # d)) = Inr (JStr (''***@'' @ d))"
    using redact_email_at [of "[]" d] by simp
  have "redact_email (JStr (''***'' @ CHR ''@'' # d)) = Inr (JStr (take 1 ''***'' @ ''***@'' @ d))"
    by (rule redact_email_at) simp
  then have two: "redact_email (JStr (''***@'' @ d)) = Inr (JStr (CHR ''*'' # ''***@'' @ d))"
    by simp
  from one two show "\<exists>r. redact_email (JStr (CHR ''@'' # d)) = Inr (JStr r)
          \<and> redact_email (JStr r) = Inr (JStr (CHR ''*'' # r))"
    by blast
qed

theorem redact_email_idempotent_witness:
  "(\<exists>r. redact_email (JStr ''bob@corp.io'') = Inr r \<and> redact_email r = Inr r)
   \<and> (\<exists>r. redact_email (JStr ''@corp.io'') = Inr (JStr r)
          \<and> redact_email (JStr r) = Inr (JStr (CHR ''*'' # r)))"
  using redact_email_idempotent [of "''bob@corp.io''" "''corp.io''"] by simp

section \<open>Properties of the presenters\<close>

lemma exn_bind_Inr [simp]: "exn_bind (Inr x) f = f x"
  by (simp add: exn_bind_def)

lemma exn_bind_Inl [simp]: "exn_bind (Inl e) f = Inl e"
  by (simp add: exn_bind_def)

lemma exn_bind_eq_Inr: "exn_bind m f = Inr y \<Longrightarrow> \<exists>x. m = Inr x \<and> f x = Inr y"
  by (cases m) simp_all

lemma summary_item_subject:
  "map_of kvs ''Subject'' = Some (JStr s) \<Longrightarrow>
   format_timeline_summary_item i (JObj kvs) =
     Inr [[T ''   '', N i, T ''. '', U 0x1F4E7, T '' '',
           V (JStr (if 50 \<le> length s then take 50 s @ ''...'' else s))],
          [T ''      '', U 0x1F3E2, T '' Company ID: '',
           V (case map_of kvs ''GsCompanyId'' of Some v \<Rightarrow> v | None \<Rightarrow> JStr ''No company ID'')]]"
  by (simp add: format_timeline_summary_item_def min_def)

lemma exn_bind_Inr_iff: "(exn_bind m f = Inr y) = (\<exists>x. m = Inr x \<and> f x = Inr y)"
  by (cases m) simp_all

lemma summary_item_length:
  "format_timeline_summary_item i a = Inr ls \<Longrightarrow> length ls = 2"
  unfolding format_timeline_summary_item_def
  by (auto simp: exn_bind_Inr_iff)

lemma summary_loop_nth:
  "format_timeline_summary_loop i acts = Inr ls \<Longrightarrow> k < length acts \<Longrightarrow>
   format_timeline_summary_item (i + k) (acts ! k) = Inr [ls ! (2 * k), ls ! (2 * k + 1)]"
proof (induction acts arbitrary: i ls k)
  case Nil
  then show ?case by simp
next
  case (Cons a acts)
  from Cons.prems(1) obtain l more where
    l: "format_timeline_summary_item i a = Inr l" and
    more: "format_timeline_summary_loop (Suc i) acts = Inr more" and
    ls: "ls = l @ more"
    by (auto split: sum.splits)
  from summary_item_length [OF l] obtain x y where xy: "l = [x, y]"
    by (cases l; cases "tl l") auto
  show ?case
  proof (cases k)
    case 0
    with l xy ls show ?thesis by simp
  next
    case (Suc k')
    with Cons.prems(2) have "k' < length acts" by simp
    from Cons.IH [OF more this] Suc xy ls show ?thesis by simp
  qed
qed


lemma summary_whole:
  "format_timeline_summary (JArr acts) = Inr ls \<Longrightarrow> acts \<noteq> [] \<Longrightarrow>
   \<exists>body. format_timeline_summary_loop 1 acts = Inr body \<and>
      ls = [T ''   '', U 0x1F4CA, T '' Found '', N (length acts), T '' recent activities:''] # body"
  unfolding format_timeline_summary_def
  by (simp add: exn_bind_Inr_iff) blast

text \<open>
  Claim C10.  In csm-dashboard's \<open>format_timeline_summary\<close> a subject string of 50
  characters or more is shown as its first 50 characters followed by three dots (a subject
  of exactly 50 characters gets the dots although nothing was cut), and a shorter subject
  is shown as it is: for one activity, and for the activity at any position of the list
  the presenter is given.
\<close>

theorem format_timeline_summary_subject:
  "(map_of kvs ''Subject'' = Some (JStr s) \<longrightarrow>
      (\<exists>l. format_timeline_summary_item i (JObj kvs) =
         Inr [[T ''   '', N i, T ''. '', U 0x1F4E7, T '' '',
               V (JStr (if 50 \<le> length s then take 50 s @ ''...'' else s))], l]))
   \<and> (format_timeline_summary (JArr acts) = Inr ls \<and> k < length acts \<and>
        acts ! k = JObj kvs \<and> map_of kvs ''Subject'' = Some (JStr s) \<longrightarrow>
        ls ! (1 + 2 * k) =
          [T ''   '', N (1 + k), T ''. '', U 0x1F4E7, T '' '',
           V (JStr (if 50 \<le> length s then take 50 s @ ''...'' else s))])"
proof (intro conjI impI)
  assume "map_of kvs ''Subject'' = Some (JStr s)"
  from summary_item_subject [OF this, of i]
  show "\<exists>l. format_timeline_summary_item i (JObj kvs) =
         Inr [[T ''   '', N i, T ''. '', U 0x1F4E7, T '' '',
               V (JStr (if 50 \<le> length s then take 50 s @ ''...'' else s))], l]"
    by blast
next
  assume h: "format_timeline_summary (JArr acts) = Inr ls \<and> k < length acts \<and>
        acts ! k = JObj kvs \<and> map_of kvs ''Subject'' = Some (JStr s)"
  from h have f: "format_timeline_summary (JArr acts) = Inr ls" by (rule conjunct1)
  from h have k: "k < length acts" by simp
  from h have a: "acts ! k = JObj kvs" by simp
  from h have s: "map_of kvs ''Subject'' = Some (JStr s)" by simp
  from k have ne: "acts \<noteq> []" by auto
  from summary_whole [OF f ne] obtain body where body: "format_timeline_summary_loop 1 acts = Inr body"
    and ls: "ls = [T ''   '', U 0x1F4CA, T '' Found '', N (length acts), T '' recent activities:''] # body"
    by blast
  have "format_timeline_summary_item (1 + k) (JObj kvs) = Inr [body ! (2 * k), body ! (2 * k + 1)]"
    using summary_loop_nth [OF body k] a by simp
  with summary_item_subject [OF s, of "1 + k"]
  have "body ! (2 * k) = [T ''   '', N (1 + k), T ''. '', U 0x1F4E7, T '' '',
           V (JStr (if 50 \<le> length s then take 50 s @ ''...'' else s))]"
    by simp
  moreover have "ls ! (1 + 2 * k) = body ! (2 * k)"
    unfolding ls by simp
  ultimately show "ls ! (1 + 2 * k) =
          [T ''   '', N (1 + k), T ''. '', U 0x1F4E7, T '' '',
           V (JStr (if 50 \<le> length s then take 50 s @ ''...'' else s))]"
    by simp
qed


theorem format_timeline_summary_subject_witness:
  "(\<exists>l. format_timeline_summary_item 1
          (JObj [(''Subject'', JStr ''0123456789012345678901234567890123456789012345678X''),
                 (''GsCompanyId'', JStr ''1P02'')]) =
         Inr [[T ''   '', N 1, T ''. '', U 0x1F4E7, T '' '',
               V (JStr ''0123456789012345678901234567890123456789012345678X...'')], l])
   \<and> (\<exists>ls. format_timeline_summary
          (JArr [JObj [(''Subject'', JStr ''0123456789012345678901234567890123456789012345678X''),
                       (''GsCompanyId'', JStr ''1P02'')]]) = Inr ls
        \<and> ls ! 1 = [T ''   '', N 1, T ''. '', U 0x1F4E7, T '' '',
               V (JStr ''0123456789012345678901234567890123456789012345678X...'')])"
proof -
  let ?s = "''0123456789012345678901234567890123456789012345678X''"
  let ?kvs = "[(''Subject'', JStr ?s), (''GsCompanyId'', JStr ''1P02'')]"
  let ?ls = "[[T ''   '', U 0x1F4CA, T '' Found '', N 1, T '' recent activities:''],
              [T ''   '', N 1, T ''. '', U 0x1F4E7, T '' '', V (JStr (?s @ ''...''))],
              [T ''      '', U 0x1F3E2, T '' Company ID: '', V (JStr ''1P02'')]]"
  have f: "format_timeline_summary (JArr [JObj ?kvs]) = Inr ?ls"
    by (simp add: format_timeline_summary_def format_timeline_summary_item_def)
  from format_timeline_summary_subject [of ?kvs ?s 1 "[JObj ?kvs]" ?ls 0] f
  show ?thesis by simp
qed

lemma cut_not_default: "50 < length s \<Longrightarrow> take 50 s @ ''...'' \<noteq> ''No subject''"
  by (auto dest: arg_cong [where f = length])

lemma data_item_subject:
  "format_timeline_data_item fmt i (JObj kvs) = Inr l \<Longrightarrow>
   map_of kvs ''Subject'' = Some (JStr s) \<Longrightarrow> 50 < length s \<Longrightarrow>
   [T ''      '', U 0x1F4E7, T '' '', V (JStr (take 50 s @ ''...''))] \<in> set l"
proof -
  assume l: "format_timeline_data_item fmt i (JObj kvs) = Inr l"
    and s: "map_of kvs ''Subject'' = Some (JStr s)" and len: "50 < length s"
  from len have ne: "s \<noteq> []" by auto
  from l s len ne show ?thesis
    unfolding format_timeline_data_item_def
    by (auto simp: exn_bind_Inr_iff cut_not_default)
qed

lemma data_loop_mem:
  "format_timeline_data_loop fmt i acts = Inr ls \<Longrightarrow> a \<in> set acts \<Longrightarrow>
   \<exists>j l. format_timeline_data_item fmt j a = Inr l \<and> set l \<subseteq> set ls"
proof (induction acts arbitrary: i ls)
  case Nil
  then show ?case by simp
next
  case (Cons b acts)
  from Cons.prems(1) obtain l more where
    l: "format_timeline_data_item fmt i b = Inr l" and
    more: "format_timeline_data_loop fmt (Suc i) acts = Inr more" and
    ls: "ls = l @ more"
    by (auto split: sum.splits)
  show ?case
  proof (cases "a = b")
    case True
    with l ls show ?thesis by auto
  next
    case False
    with Cons.prems(2) have "a \<in> set acts" by simp
    from Cons.IH [OF more this] obtain j l' where
      "format_timeline_data_item fmt j a = Inr l'" "set l' \<subseteq> set more" by blast
    with ls show ?thesis by auto
  qed
qed

lemma summary_loop_mem:
  "format_timeline_summary_loop i acts = Inr ls \<Longrightarrow> a \<in> set acts \<Longrightarrow>
   \<exists>j l. format_timeline_summary_item j a = Inr l \<and> set l \<subseteq> set ls"
proof (induction acts arbitrary: i ls)
  case Nil
  then show ?case by simp
next
  case (Cons b acts)
  from Cons.prems(1) obtain l more where
    l: "format_timeline_summary_item i b = Inr l" and
    more: "format_timeline_summary_loop (Suc i) acts = Inr more" and
    ls: "ls = l @ more"
    by (auto split: sum.splits)
  show ?case
  proof (cases "a = b")
    case True
    with l ls show ?thesis by auto
  next
    case False
    with Cons.prems(2) have "a \<in> set acts" by simp
    from Cons.IH [OF more this] obtain j l' where
      "format_timeline_summary_item j a = Inr l'" "set l' \<subseteq> set more" by blast
    with ls show ?thesis by auto
  qed
qed

lemma data_whole:
  "format_timeline_data fmt (JObj tkvs) = Inr ls \<Longrightarrow> map_of tkvs ''result'' = Some r \<Longrightarrow>
   truthy r \<Longrightarrow> map_of tkvs ''data'' = Some raw \<Longrightarrow> page_records raw = Some (JArr acts) \<Longrightarrow>
   acts \<noteq> [] \<Longrightarrow>
   \<exists>body. format_timeline_data_loop fmt 1 acts = Inr body \<and> set body \<subseteq> set ls"
  unfolding format_timeline_data_def
  by (cases tkvs) (auto simp: exn_bind_Inr_iff)

text \<open>
  Claim C7.  Both presenters that show a subject, \<open>format_timeline_data\<close> of
  timeline-viewer.py and \<open>format_timeline_summary\<close> of csm-dashboard.py, show a subject
  string longer than 50 characters (one of 51 characters is the first case) as its first 50
  characters followed by three dots.
\<close>

theorem long_subject_cut:
  "(format_timeline_data fmt (JObj tkvs) = Inr ls \<and> map_of tkvs ''result'' = Some r \<and> truthy r \<and>
    map_of tkvs ''data'' = Some raw \<and> page_records raw = Some (JArr acts) \<and>
    JObj kvs \<in> set acts \<and> map_of kvs ''Subject'' = Some (JStr s) \<and> 50 < length s \<longrightarrow>
      [T ''      '', U 0x1F4E7, T '' '', V (JStr (take 50 s @ ''...''))] \<in> set ls)
   \<and> (format_timeline_summary (JArr acts) = Inr ls' \<and>
        JObj kvs \<in> set acts \<and> map_of kvs ''Subject'' = Some (JStr s) \<and> 50 < length s \<longrightarrow>
      (\<exists>i. [T ''   '', N i, T ''. '', U 0x1F4E7, T '' '', V (JStr (take 50 s @ ''...''))]
            \<in> set ls'))"
proof (intro conjI impI)
  assume h: "format_timeline_data fmt (JObj tkvs) = Inr ls \<and> map_of tkvs ''result'' = Some r \<and>
    truthy r \<and> map_of tkvs ''data'' = Some raw \<and> page_records raw = Some (JArr acts) \<and>
    JObj kvs \<in> set acts \<and> map_of kvs ''Subject'' = Some (JStr s) \<and> 50 < length s"
  then have mem: "JObj kvs \<in> set acts" by simp
  then have ne: "acts \<noteq> []" by auto
  from h ne obtain body where body: "format_timeline_data_loop fmt 1 acts = Inr body"
    and sub: "set body \<subseteq> set ls"
    using data_whole [of fmt tkvs ls r raw acts] by blast
  from data_loop_mem [OF body mem] obtain j l where
    l: "format_timeline_data_item fmt j (JObj kvs) = Inr l" and lsub: "set l \<subseteq> set body"
    by blast
  from h have "map_of kvs ''Subject'' = Some (JStr s)" "50 < length s" by simp_all
  from data_item_subject [OF l this] lsub sub
  show "[T ''      '', U 0x1F4E7, T '' '', V (JStr (take 50 s @ ''...''))] \<in> set ls"
    by blast
next
  assume h: "format_timeline_summary (JArr acts) = Inr ls' \<and>
        JObj kvs \<in> set acts \<and> map_of kvs ''Subject'' = Some (JStr s) \<and> 50 < length s"
  then have f: "format_timeline_summary (JArr acts) = Inr ls'" by (rule conjunct1)
  from h have mem: "JObj kvs \<in> set acts" by simp
  then have ne: "acts \<noteq> []" by auto
  from h have s: "map_of kvs ''Subject'' = Some (JStr s)" and len: "50 < length s" by simp_all
  from summary_whole [OF f ne] obtain body where
    body: "format_timeline_summary_loop 1 acts = Inr body" and
    ls': "ls' = [T ''   '', U 0x1F4CA, T '' Found '', N (length acts), T '' recent activities:''] # body"
    by blast
  from ls' have sub: "set body \<subseteq> set ls'" by auto
  from summary_loop_mem [OF body mem] obtain j l where
    l: "format_timeline_summary_item j (JObj kvs) = Inr l" and lsub: "set l \<subseteq> set body"
    by blast
  from summary_item_subject [OF s, of j] l len
  have "[T ''   '', N j, T ''. '', U 0x1F4E7, T '' '', V (JStr (take 50 s @ ''...''))] \<in> set l"
    by auto
  with lsub sub show "\<exists>i. [T ''   '', N i, T ''. '', U 0x1F4E7, T '' '',
      V (JStr (take 50 s @ ''...''))] \<in> set ls'"
    by blast
qed


theorem long_subject_cut_witness:
  "(\<exists>ls. format_timeline_data (\<lambda>d. Some ''2024-05-01 09:30'')
           (JObj [(''result'', JBool True),
                  (''data'', JObj [(''records'',
                     JArr [JObj [(''Gsid'', JStr ''1I004ABCDEFGH''),
                                 (''ActivityDate'', JStr ''2024-05-01T09:30:00Z''),
                                 (''Subject'',
                                  JStr ''012345678901234567890123456789012345678901234567XYZ'')]])])])
           = Inr ls
         \<and> [T ''      '', U 0x1F4E7, T '' '',
             V (JStr ''012345678901234567890123456789012345678901234567XY...'')] \<in> set ls)
   \<and> (\<exists>ls' i. format_timeline_summary
           (JArr [JObj [(''Gsid'', JStr ''1I004ABCDEFGH''),
                        (''ActivityDate'', JStr ''2024-05-01T09:30:00Z''),
                        (''Subject'',
                         JStr ''012345678901234567890123456789012345678901234567XYZ'')]])
           = Inr ls'
         \<and> [T ''   '', N i, T ''. '', U 0x1F4E7, T '' '',
             V (JStr ''012345678901234567890123456789012345678901234567XY...'')] \<in> set ls')"
proof -
  let ?s = "''012345678901234567890123456789012345678901234567XYZ''"
  let ?kvs = "[(''Gsid'', JStr ''1I004ABCDEFGH''),
               (''ActivityDate'', JStr ''2024-05-01T09:30:00Z''), (''Subject'', JStr ?s)]"
  let ?raw = "JObj [(''records'', JArr [JObj ?kvs])]"
  let ?tkvs = "[(''result'', JBool True), (''data'', ?raw)]"
  let ?fmt = "\<lambda>d::string. Some ''2024-05-01 09:30''"
  let ?cut = "JStr ''012345678901234567890123456789012345678901234567XY...''"
  let ?ls = "[[T ''   '', U 0x1F4CA, T '' Found '', N 1, T '' Timeline activities:''],
              [T ''   '', N 1, T ''. ['', T ''2024-05-01 09:30'', T ''] '', V (JStr ''Unknown''),
               T '' context''],
              [T ''      '', U 0x1F4E7, T '' '', V ?cut],
              [T ''      '', U 0x1F194, T '' '', V (JStr ''1I004ABCDE...'')]]"
  let ?ls' = "[[T ''   '', U 0x1F4CA, T '' Found '', N 1, T '' recent activities:''],
               [T ''   '', N 1, T ''. '', U 0x1F4E7, T '' '', V ?cut],
               [T ''      '', U 0x1F3E2, T '' Company ID: '', V (JStr ''No company ID'')]]"
  have f: "format_timeline_data ?fmt (JObj ?tkvs) = Inr ?ls"
    by (simp add: format_timeline_data_def format_timeline_data_item_def activity_date_def
        try_date_field_def)
  have g: "format_timeline_summary (JArr [JObj ?kvs]) = Inr ?ls'"
    by (simp add: format_timeline_summary_def format_timeline_summary_item_def)
  from long_subject_cut [where fmt = ?fmt and tkvs = ?tkvs and ls = ?ls and r = "JBool True"
      and raw = ?raw and acts = "[JObj ?kvs]" and kvs = ?kvs and s = ?s and ls' = ?ls'] f g
  show ?thesis by simp
qed

section \<open>Properties of the aggregator\<close>

text \<open>
  Claim C6.  When the domains the loop of \<open>extract_email_domains\<close> collects from the
  contacts (the text after the at sign of each e-mail field, lower-cased) are \<open>a.com\<close>,
  \<open>a.com\<close>, \<open>b.com\<close>, the aggregator returns the counts \<open>a.com: 2\<close>, \<open>b.com: 1\<close>,
  and the selection of the most frequent domain in \<open>main\<close> gives \<open>a.com\<close>.
\<close>

theorem extract_email_domains_example:
  "extract_email_domains_loop items = Inr [''a.com'', ''a.com'', ''b.com''] \<Longrightarrow>
   extract_email_domains (JArr items) = Inr [(''a.com'', 2), (''b.com'', 1)]
   \<and> primary_domain [(''a.com'', 2), (''b.com'', 1)] = ''a.com''"
  by (simp add: extract_email_domains_def Counter_def primary_domain_def)

theorem extract_email_domains_example_witness:
  "extract_email_domains_loop
     [JObj [(''Person_ID__gr.Email'', JStr ''ann@A.com'')],
      JObj [(''Title'', JStr ''CTO'')],
      JObj [(''Person_ID__gr.Email'', JStr ''bob@a.COM'')],
      JObj [(''Person_ID__gr.Email'', JNull)],
      JObj [(''Person_ID__gr.Email'', JStr ''cy@b.com'')]] = Inr [''a.com'', ''a.com'', ''b.com'']
   \<and> extract_email_domains
     (JArr [JObj [(''Person_ID__gr.Email'', JStr ''ann@A.com'')],
      JObj [(''Title'', JStr ''CTO'')],
      JObj [(''Person_ID__gr.Email'', JStr ''bob@a.COM'')],
      JObj [(''Person_ID__gr.Email'', JNull)],
      JObj [(''Person_ID__gr.Email'', JStr ''cy@b.com'')]]) = Inr [(''a.com'', 2), (''b.com'', 1)]
   \<and> primary_domain [(''a.com'', 2), (''b.com'', 1)] = ''a.com''"
proof -
  let ?items = "[JObj [(''Person_ID__gr.Email'', JStr ''ann@A.com'')],
      JObj [(''Title'', JStr ''CTO'')],
      JObj [(''Person_ID__gr.Email'', JStr ''bob@a.COM'')],
      JObj [(''Person_ID__gr.Email'', JNull)],
      JObj [(''Person_ID__gr.Email'', JStr ''cy@b.com'')]]"
  have d: "extract_email_domains_loop ?items = Inr [''a.com'', ''a.com'', ''b.com'']"
    by (simp add: extract_email_domains_item_def py_lower_def exn_bind_def)
  from extract_email_domains_example [OF d] d show ?thesis by simp
qed

section \<open>Properties of the paginated fetcher\<close>

lemma posted_py_print [simp]: "posted (py_print l w) = posted w"
  by (simp add: py_print_def)

lemma console_py_print [simp]: "console (py_print l w) = console w @ [l]"
  by (simp add: py_print_def)

lemma post_eq: "post remote req w = (r, w') \<longleftrightarrow> r = remote req \<and> w' = w\<lparr>posted := posted w @ [req]\<rparr>"
  by (auto simp: post_def)

lemma fetch_contacts_page_ok:
  assumes "remote (Post url headers (contacts_query gsid limit offset) 15) = Response 200 text (Some data)"
    and "py_get data ''result'' JNull = Inr result" and "truthy result"
    and "py_get data ''data'' (JArr []) = Inr raw" and "page_records raw = Some (JArr xs)"
  shows "\<exists>w'. fetch_contacts_page remote url headers gsid limit offset w = (Inr (Some (xs, length xs)), w')
     \<and> posted w' = posted w @ [Post url headers (contacts_query gsid limit offset) 15]"
  using assms by (simp add: fetch_contacts_page_def post_def)

lemma serves_recordsD:
  assumes "serves_records remote url headers gsid n rs" and "k \<le> length rs div n"
  shows "\<exists>w'. fetch_contacts_page remote url headers gsid (int n) (int (k * n)) w =
           (Inr (Some (take n (drop (k * n) rs), length (take n (drop (k * n) rs)))), w')
     \<and> posted w' = posted w @ [Post url headers (contacts_query gsid (int n) (int (k * n))) 15]"
proof -
  from assms(2) have k: "k \<in> set [0..<Suc (length rs div n)]" by auto
  let ?req = "Post url headers (contacts_query gsid (int n) (int (k * n))) 15"
  from assms(1) k have
    "case remote ?req of
          RequestException e \<Rightarrow> False
        | Response status_code text js \<Rightarrow>
            status_code = 200 \<and>
            (case js of
               None \<Rightarrow> False
             | Some data \<Rightarrow>
                 (case py_get data ''result'' JNull of
                    Inl x \<Rightarrow> False
                  | Inr result \<Rightarrow>
                      truthy result \<and>
                      (case py_get data ''data'' (JArr []) of
                         Inl x \<Rightarrow> False
                       | Inr raw_data \<Rightarrow>
                           page_records raw_data =
                             Some (JArr (take n (drop (k * n) rs))))))"
    unfolding serves_records_def list_all_iff by blast
  then obtain tx data result raw where
    "remote ?req = Response 200 tx (Some data)"
    "py_get data ''result'' JNull = Inr result" "truthy result"
    "py_get data ''data'' (JArr []) = Inr raw"
    "page_records raw = Some (JArr (take n (drop (k * n) rs)))"
    by (auto split: reply.splits option.splits sum.splits)
  then show ?thesis by (rule fetch_contacts_page_ok)
qed


lemma page_short: "0 < n \<Longrightarrow> k = length rs div n \<Longrightarrow> length (take n (drop (k * n) rs)) < n"
proof -
  assume n: "0 < n" and k: "k = length rs div n"
  have "length rs - k * n = length rs mod n"
    unfolding k by (simp add: minus_div_mult_eq_mod)
  with n show ?thesis by simp
qed

lemma page_full: "k < length rs div n \<Longrightarrow> length (take n (drop (k * n) rs)) = n"
proof -
  assume k: "k < length rs div n"
  then have "Suc k * n \<le> (length rs div n) * n" by (intro mult_le_mono1) simp
  also have "\<dots> \<le> length rs" by simp
  finally show ?thesis by simp
qed

lemma fetch_contacts_loop_stop:
  "fetch_contacts_page remote url headers gsid limit offset w = (Inr (Some (xs, m)), w') \<Longrightarrow>
   int m < limit \<Longrightarrow>
   fetch_contacts_loop remote url headers gsid limit contacts offset w =
     Some (Inr (JArr (contacts @ xs)), w')"
  by (subst fetch_contacts_loop.simps) simp

lemma fetch_contacts_loop_go:
  "fetch_contacts_page remote url headers gsid limit offset w = (Inr (Some (xs, m)), w') \<Longrightarrow>
   \<not> int m < limit \<Longrightarrow>
   fetch_contacts_loop remote url headers gsid limit contacts offset w =
     fetch_contacts_loop remote url headers gsid limit (contacts @ xs) (offset + limit) w'"
  by (subst fetch_contacts_loop.simps) simp

lemma fetch_contacts_loop_from:
  assumes n: "0 < n" and served: "serves_records remote url headers gsid n rs"
  shows "k \<le> length rs div n \<Longrightarrow>
     \<exists>w'. fetch_contacts_loop remote url headers gsid (int n) contacts (int (k * n)) w =
            Some (Inr (JArr (contacts @ drop (k * n) rs)), w')
       \<and> posted w' = posted w @
            map (\<lambda>j. Post url headers (contacts_query gsid (int n) (int (j * n))) 15)
              [k..<Suc (length rs div n)]"
proof (induction "length rs div n - k" arbitrary: k contacts w)
  case 0
  then have k: "k = length rs div n" by simp
  define xs where "xs = take n (drop (k * n) rs)"
  from serves_recordsD [OF served, of k w] k obtain w' where
    page: "fetch_contacts_page remote url headers gsid (int n) (int (k * n)) w =
           (Inr (Some (xs, length xs)), w')"
    and p: "posted w' = posted w @ [Post url headers (contacts_query gsid (int n) (int (k * n))) 15]"
    unfolding xs_def by auto
  from page_short [OF n k] have short: "length xs < n" unfolding xs_def .
  then have all: "xs = drop (k * n) rs" unfolding xs_def by simp
  from short have "int (length xs) < int n" by simp
  from fetch_contacts_loop_stop [OF page this]
  have "fetch_contacts_loop remote url headers gsid (int n) contacts (int (k * n)) w =
      Some (Inr (JArr (contacts @ xs)), w')" .
  moreover have "[k..<Suc (length rs div n)] = [k]" using k by simp
  ultimately show ?case using all p by simp
next
  case (Suc d)
  then have lt: "k < length rs div n" and le: "k \<le> length rs div n" by simp_all
  define xs where "xs = take n (drop (k * n) rs)"
  from serves_recordsD [OF served le, of w] obtain w1 where
    page: "fetch_contacts_page remote url headers gsid (int n) (int (k * n)) w =
           (Inr (Some (xs, length xs)), w1)"
    and p: "posted w1 = posted w @ [Post url headers (contacts_query gsid (int n) (int (k * n))) 15]"
    unfolding xs_def by auto
  from page_full [OF lt] have full: "length xs = n" unfolding xs_def .
  have d: "d = length rs div n - Suc k" using Suc.hyps(2) by simp
  have le': "Suc k \<le> length rs div n" using lt by simp
  from Suc.hyps(1) [OF d le', of "contacts @ xs" w1] obtain w' where
    rest: "fetch_contacts_loop remote url headers gsid (int n) (contacts @ xs)
             (int (Suc k * n)) w1 =
           Some (Inr (JArr ((contacts @ xs) @ drop (Suc k * n) rs)), w')"
    and p': "posted w' = posted w1 @
            map (\<lambda>j. Post url headers (contacts_query gsid (int n) (int (j * n))) 15)
              [Suc k..<Suc (length rs div n)]"
    by blast
  have off: "int (k * n) + int n = int (Suc k * n)" by simp
  from full have "\<not> int (length xs) < int n" by simp
  from fetch_contacts_loop_go [OF page this, of contacts]
  have step: "fetch_contacts_loop remote url headers gsid (int n) contacts (int (k * n)) w =
      fetch_contacts_loop remote url headers gsid (int n) (contacts @ xs) (int (Suc k * n)) w1"
    unfolding off .
  have join: "xs @ drop (Suc k * n) rs = drop (k * n) rs"
  proof -
    have "drop (Suc k * n) rs = drop n (drop (k * n) rs)" by (simp add: add.commute)
    then show ?thesis unfolding xs_def by (simp only: append_take_drop_id)
  qed
  have upt: "[k..<Suc (length rs div n)] = k # [Suc k..<Suc (length rs div n)]"
    using le by (simp add: upt_conv_Cons)
  have "fetch_contacts_loop remote url headers gsid (int n) contacts (int (k * n)) w =
      Some (Inr (JArr (contacts @ drop (k * n) rs)), w')"
    unfolding step rest using join by simp
  moreover have "posted w' = posted w @
            map (\<lambda>j. Post url headers (contacts_query gsid (int n) (int (j * n))) 15)
              [k..<Suc (length rs div n)]"
    unfolding p' p upt by simp
  ultimately show ?case by blast
qed

lemma calls_count:
  "0 < (n::nat) \<Longrightarrow> Suc (m div n) = (m + n - 1) div n + (if n dvd m then 1 else 0)"
proof -
  assume n: "0 < n"
  define q r where "q = m div n" and "r = m mod n"
  have m: "m = r + q * n" unfolding q_def r_def by simp
  have r: "r < n" unfolding r_def using n by simp
  from n have n0: "n \<noteq> 0" by simp
  show ?thesis
  proof (cases "r = 0")
    case True
    then have d: "n dvd m" unfolding r_def by (simp add: dvd_eq_mod_eq_0)
    from n have e: "m + n - 1 = (n - 1) + q * n" unfolding m True by simp
    have "((n - 1) + q * n) div n = q + (n - 1) div n" by (rule div_mult_self1 [OF n0])
    also from n have "(n - 1) div n = 0" by simp
    finally have "(m + n - 1) div n = q" unfolding e by simp
    with d show ?thesis unfolding q_def by simp
  next
    case False
    then have d: "\<not> n dvd m" unfolding r_def by (simp add: dvd_eq_mod_eq_0)
    from False n have e: "m + n - 1 = (r - 1) + (Suc q) * n" unfolding m by simp
    have "((r - 1) + (Suc q) * n) div n = Suc q + (r - 1) div n" by (rule div_mult_self1 [OF n0])
    also from r have "(r - 1) div n = 0" by simp
    finally have "(m + n - 1) div n = Suc q" unfolding e by simp
    with d show ?thesis unfolding q_def by simp
  qed
qed


text \<open>
  Claim C1.  Against a service that holds \<open>M\<close> records and hands them out in pages of
  \<open>N > 0\<close>, the paginated fetcher posts the queries for the offsets \<open>0, N, 2N, ...\<close> up
  to the first page shorter than \<open>N\<close>: that is \<open>M div N + 1\<close> calls, the number
  \<open>ceil(M/N) + (1 if N divides M else 0)\<close>.  It returns the \<open>M\<close> records in the order the
  service delivered them; with no record at all it makes one call and returns the empty
  list.  The first part is the loop for any page size, the second
  \<open>fetch_contacts_by_company_gsid\<close> itself, whose page size is 1000.
\<close>

theorem fetch_contacts_pages:
  "(0 < n \<and> serves_records remote url headers gsid n rs \<longrightarrow>
      (\<exists>w'. fetch_contacts_loop remote url headers gsid (int n) [] 0 w = Some (Inr (JArr rs), w')
         \<and> posted w' = posted w @
              map (\<lambda>k. Post url headers (contacts_query gsid (int n) (int (k * n))) 15)
                [0..<Suc (length rs div n)]
         \<and> length (posted w') =
              length (posted w) + (length rs + n - 1) div n + (if n dvd length rs then 1 else 0)))
   \<and> (serves_records remote (api_url domain ''/v1/data/objects/query/company_person'')
         (api_headers access_key) gsid 1000 rs \<longrightarrow>
      (\<exists>w'. fetch_contacts_by_company_gsid remote domain access_key gsid w =
              Some (Inr (JArr rs), w')
         \<and> posted w' = posted w @
              map (\<lambda>k. Post (api_url domain ''/v1/data/objects/query/company_person'')
                          (api_headers access_key) (contacts_query gsid 1000 (int (k * 1000))) 15)
                [0..<Suc (length rs div 1000)]
         \<and> length (posted w') =
              length (posted w) + (length rs + 1000 - 1) div 1000
                + (if 1000 dvd length rs then 1 else 0)))"
proof (intro conjI impI)
  assume h: "0 < n \<and> serves_records remote url headers gsid n rs"
  then have n: "0 < n" and served: "serves_records remote url headers gsid n rs" by simp_all
  from fetch_contacts_loop_from [OF n served, of 0 "[]" w] obtain w' where
    run: "fetch_contacts_loop remote url headers gsid (int n) [] 0 w = Some (Inr (JArr rs), w')"
    and p: "posted w' = posted w @
              map (\<lambda>k. Post url headers (contacts_query gsid (int n) (int (k * n))) 15)
                [0..<Suc (length rs div n)]"
    by auto
  from p have "length (posted w') = length (posted w) + Suc (length rs div n)" by simp
  with calls_count [OF n, of "length rs"]
  have "length (posted w') =
      length (posted w) + (length rs + n - 1) div n + (if n dvd length rs then 1 else 0)"
    by simp
  with run p show "\<exists>w'. fetch_contacts_loop remote url headers gsid (int n) [] 0 w =
         Some (Inr (JArr rs), w')
     \<and> posted w' = posted w @
          map (\<lambda>k. Post url headers (contacts_query gsid (int n) (int (k * n))) 15)
            [0..<Suc (length rs div n)]
     \<and> length (posted w') =
          length (posted w) + (length rs + n - 1) div n + (if n dvd length rs then 1 else 0)"
    by blast
next
  let ?url = "api_url domain ''/v1/data/objects/query/company_person''"
  let ?hd = "api_headers access_key"
  assume served: "serves_records remote ?url ?hd gsid 1000 rs"
  have n: "0 < (1000::nat)" by simp
  from fetch_contacts_loop_from [OF n served, of 0 "[]" w] obtain w' where
    run: "fetch_contacts_loop remote ?url ?hd gsid 1000 [] 0 w = Some (Inr (JArr rs), w')"
    and p: "posted w' = posted w @
              map (\<lambda>k. Post ?url ?hd (contacts_query gsid 1000 (int (k * 1000))) 15)
                [0..<Suc (length rs div 1000)]"
    by auto
  from p have "length (posted w') = length (posted w) + Suc (length rs div 1000)" by simp
  with calls_count [OF n, of "length rs"]
  have c: "length (posted w') =
      length (posted w) + (length rs + 1000 - 1) div 1000 + (if 1000 dvd length rs then 1 else 0)"
    by simp
  from run have "fetch_contacts_by_company_gsid remote domain access_key gsid w =
      Some (Inr (JArr rs), w')"
    by (simp add: fetch_contacts_by_company_gsid_def)
  with p c show "\<exists>w'. fetch_contacts_by_company_gsid remote domain access_key gsid w =
              Some (Inr (JArr rs), w')
         \<and> posted w' = posted w @
              map (\<lambda>k. Post ?url ?hd (contacts_query gsid 1000 (int (k * 1000))) 15)
                [0..<Suc (length rs div 1000)]
         \<and> length (posted w') =
              length (posted w) + (length rs + 1000 - 1) div 1000
                + (if 1000 dvd length rs then 1 else 0)"
    by blast
qed


theorem fetch_contacts_pages_witness:
  "(\<exists>w'. fetch_contacts_loop
            (paged_service [JStr ''c1'', JStr ''c2'', JStr ''c3'', JStr ''c4''])
            ''https://x.example/q'' [] (JStr ''1P01'') 2 [] 0 \<lparr>console = [], posted = []\<rparr> =
          Some (Inr (JArr [JStr ''c1'', JStr ''c2'', JStr ''c3'', JStr ''c4'']), w')
        \<and> length (posted w') = 3)
   \<and> (\<exists>w'. fetch_contacts_loop (paged_service [])
            ''https://x.example/q'' [] (JStr ''1P01'') 2 [] 0 \<lparr>console = [], posted = []\<rparr> =
          Some (Inr (JArr []), w')
        \<and> length (posted w') = 1)
   \<and> (\<exists>w'. fetch_contacts_by_company_gsid (paged_service [JStr ''c1'', JStr ''c2''])
            ''https://x.example/'' ''key'' (JStr ''1P01'') \<lparr>console = [], posted = []\<rparr> =
          Some (Inr (JArr [JStr ''c1'', JStr ''c2'']), w')
        \<and> length (posted w') = 1)"
proof -
  let ?rs4 = "[JStr ''c1'', JStr ''c2'', JStr ''c3'', JStr ''c4'']"
  let ?rs2 = "[JStr ''c1'', JStr ''c2'']"
  let ?w = "\<lparr>console = [], posted = []\<rparr>"
  have s4: "serves_records (paged_service ?rs4) ''https://x.example/q'' [] (JStr ''1P01'') 2 ?rs4"
    by code_simp
  have s0: "serves_records (paged_service []) ''https://x.example/q'' [] (JStr ''1P01'') 2 []"
    by code_simp
  have s2: "serves_records (paged_service ?rs2)
      (api_url ''https://x.example/'' ''/v1/data/objects/query/company_person'')
      (api_headers ''key'') (JStr ''1P01'') 1000 ?rs2"
    by code_simp
  have "\<exists>w'. fetch_contacts_loop (paged_service ?rs4) ''https://x.example/q'' []
      (JStr ''1P01'') (int 2) [] 0 ?w = Some (Inr (JArr ?rs4), w')
      \<and> posted w' = posted ?w @
              map (\<lambda>k. Post ''https://x.example/q'' []
                     (contacts_query (JStr ''1P01'') (int 2) (int (k * 2))) 15)
                [0..<Suc (length ?rs4 div 2)]
      \<and> length (posted w') =
              length (posted ?w) + (length ?rs4 + 2 - 1) div 2
                + (if 2 dvd length ?rs4 then 1 else 0)"
    using fetch_contacts_pages [of 2 "paged_service ?rs4" "''https://x.example/q''" "[]"
      "JStr ''1P01''" ?rs4 ?w, THEN conjunct1] s4 by simp
  then have a: "\<exists>w'. fetch_contacts_loop (paged_service ?rs4) ''https://x.example/q'' []
      (JStr ''1P01'') 2 [] 0 ?w = Some (Inr (JArr ?rs4), w') \<and> length (posted w') = 3"
    by auto
  have "\<exists>w'. fetch_contacts_loop (paged_service []) ''https://x.example/q'' []
      (JStr ''1P01'') (int 2) [] 0 ?w = Some (Inr (JArr []), w')
      \<and> posted w' = posted ?w @
              map (\<lambda>k. Post ''https://x.example/q'' []
                     (contacts_query (JStr ''1P01'') (int 2) (int (k * 2))) 15)
                [0..<Suc (length ([]::json list) div 2)]
      \<and> length (posted w') =
              length (posted ?w) + (length ([]::json list) + 2 - 1) div 2
                + (if 2 dvd length ([]::json list) then 1 else 0)"
    using fetch_contacts_pages [of 2 "paged_service []" "''https://x.example/q''" "[]"
      "JStr ''1P01''" "[]" ?w, THEN conjunct1] s0 by simp
  then have b: "\<exists>w'. fetch_contacts_loop (paged_service []) ''https://x.example/q'' []
      (JStr ''1P01'') 2 [] 0 ?w = Some (Inr (JArr []), w') \<and> length (posted w') = 1"
    by auto
  have "\<exists>w'. fetch_contacts_by_company_gsid (paged_service ?rs2) ''https://x.example/'' ''key''
      (JStr ''1P01'') ?w = Some (Inr (JArr ?rs2), w')
      \<and> posted w' = posted ?w @
              map (\<lambda>k. Post (api_url ''https://x.example/'' ''/v1/data/objects/query/company_person'')
                          (api_headers ''key'')
                          (contacts_query (JStr ''1P01'') 1000 (int (k * 1000))) 15)
                [0..<Suc (length ?rs2 div 1000)]
      \<and> length (posted w') =
              length (posted ?w) + (length ?rs2 + 1000 - 1) div 1000
                + (if 1000 dvd length ?rs2 then 1 else 0)"
    using fetch_contacts_pages [where remote = "paged_service ?rs2"
      and domain = "''https://x.example/''" and access_key = "''key''"
      and gsid = "JStr ''1P01''" and rs = ?rs2 and w = ?w, THEN conjunct2] s2 by simp
  then have c: "\<exists>w'. fetch_contacts_by_company_gsid (paged_service ?rs2) ''https://x.example/''
      ''key'' (JStr ''1P01'') ?w = Some (Inr (JArr ?rs2), w') \<and> length (posted w') = 1"
    by auto
  from a b c show ?thesis by blast
qed

lemma fetch_contacts_page_posted:
  "fetch_contacts_page remote url headers gsid limit offset w = (r, w1) \<Longrightarrow>
   posted w1 = posted w @ [Post url headers (contacts_query gsid limit offset) 15]"
  unfolding fetch_contacts_page_def post_def
  by (auto simp: py_print_def split: reply.splits option.splits sum.splits if_splits)

lemma fetch_contacts_page_aborts:
  "aborts (remote (Post url headers (contacts_query gsid limit offset) 15)) \<Longrightarrow>
   fst (fetch_contacts_page remote url headers gsid limit offset w) = Inr None"
  unfolding fetch_contacts_page_def post_def aborts_def
  by (auto split: reply.splits option.splits sum.splits json.splits)


lemma fetch_contacts_loop_abort_now:
  assumes "aborts (remote (Post url headers (contacts_query gsid limit offset) 15))"
  shows "\<exists>w'. fetch_contacts_loop remote url headers gsid limit contacts offset w =
           Some (Inr JNull, w')"
proof -
  obtain r w1 where page: "fetch_contacts_page remote url headers gsid limit offset w = (r, w1)"
    by (cases "fetch_contacts_page remote url headers gsid limit offset w")
  with fetch_contacts_page_aborts [of remote url headers gsid limit offset w] assms
  have "r = Inr None" by simp
  with page show ?thesis by (subst fetch_contacts_loop.simps) simp
qed

lemma fetch_contacts_loop_abort_run:
  assumes run: "fetch_contacts_loop remote url headers gsid limit contacts offset w = Some y"
  shows "\<exists>reqs. posted (snd y) = posted w @ reqs \<and>
      (\<forall>req\<in>set reqs. aborts (remote req) \<longrightarrow> fst y = Inr JNull)"
proof (rule fetch_contacts_loop.raw_induct
    [where P = "\<lambda>rm u h g l cs off ww yy. \<exists>reqs. posted (snd yy) = posted ww @ reqs \<and>
      (\<forall>req\<in>set reqs. aborts (rm req) \<longrightarrow> fst yy = Inr JNull)", OF _ run])
  fix loop rm u h g l cs off ww yy
  assume IH: "\<And>rm u h g l cs off ww yy. loop rm u h g l cs off ww = Some yy \<Longrightarrow>
      \<exists>reqs. posted (snd yy) = posted ww @ reqs \<and>
        (\<forall>req\<in>set reqs. aborts (rm req) \<longrightarrow> fst yy = Inr JNull)"
    and body: "(case fetch_contacts_page rm u h g l off ww of
        (Inl x, w') \<Rightarrow> Some (Inl x, w')
      | (Inr None, w') \<Rightarrow> Some (Inr JNull, w')
      | (Inr (Some (items, n)), w') \<Rightarrow>
          if int n < l then Some (Inr (JArr (cs @ items)), w')
          else loop rm u h g l (cs @ items) (off + l) w') = Some yy"
  let ?req = "Post u h (contacts_query g l off) 15"
  obtain r w1 where page: "fetch_contacts_page rm u h g l off ww = (r, w1)"
    by (cases "fetch_contacts_page rm u h g l off ww")
  from fetch_contacts_page_posted [OF page] have p: "posted w1 = posted ww @ [?req]" .
  from fetch_contacts_page_aborts [of rm u h g l off ww] page
  have ab: "aborts (rm ?req) \<Longrightarrow> r = Inr None" by simp
  show "\<exists>reqs. posted (snd yy) = posted ww @ reqs \<and>
      (\<forall>req\<in>set reqs. aborts (rm req) \<longrightarrow> fst yy = Inr JNull)"
  proof (cases r)
    case (Inl x)
    with page body have y: "yy = (Inl x, w1)" by simp
    from ab Inl have "\<not> aborts (rm ?req)" by auto
    with y p show ?thesis by auto
  next
    case (Inr v)
    show ?thesis
    proof (cases v)
      case None
      with Inr page body have "yy = (Inr JNull, w1)" by simp
      with p show ?thesis by auto
    next
      case (Some pr)
      obtain items n where pr: "pr = (items, n)" by (cases pr)
      from ab Inr Some have nab: "\<not> aborts (rm ?req)" by auto
      show ?thesis
      proof (cases "int n < l")
        case True
        with Inr Some pr page body have "yy = (Inr (JArr (cs @ items)), w1)" by simp
        with p nab show ?thesis by auto
      next
        case False
        with Inr Some pr page body
        have "loop rm u h g l (cs @ items) (off + l) w1 = Some yy"
          by simp
        from IH [OF this] obtain reqs where
          r1: "posted (snd yy) = posted w1 @ reqs" and
          r2: "\<forall>req\<in>set reqs. aborts (rm req) \<longrightarrow> fst yy = Inr JNull"
          by blast
        from r1 p have "posted (snd yy) = posted ww @ (?req # reqs)" by simp
        moreover from r2 nab
        have "\<forall>req\<in>set (?req # reqs). aborts (rm req) \<longrightarrow> fst yy = Inr JNull" by simp
        ultimately show ?thesis by blast
      qed
    qed
  qed
qed


text \<open>
  Claim C8.  A round of the pagination that receives a status other than 200, a body whose
  \<open>result\<close> is falsy, or a body whose \<open>data\<close> is neither a dict with \<open>records\<close> nor a
  list ends the fetch with \<open>None\<close>, whatever records earlier rounds have accumulated;
  and a run of \<open>fetch_contacts_by_company_gsid\<close> in which some request got such an answer
  returned \<open>None\<close>.
\<close>

theorem fetch_contacts_no_partial:
  "(aborts (remote (Post url headers (contacts_query gsid limit offset) 15)) \<longrightarrow>
      (\<exists>w'. fetch_contacts_loop remote url headers gsid limit contacts offset w =
              Some (Inr JNull, w')))
   \<and> (fetch_contacts_by_company_gsid remote domain access_key gsid w = Some (res, w') \<and>
        (\<exists>req\<in>set (drop (length (posted w)) (posted w')). aborts (remote req)) \<longrightarrow>
      res = Inr JNull)"
proof (intro conjI impI)
  assume "aborts (remote (Post url headers (contacts_query gsid limit offset) 15))"
  then show "\<exists>w'. fetch_contacts_loop remote url headers gsid limit contacts offset w =
      Some (Inr JNull, w')"
    by (rule fetch_contacts_loop_abort_now)
next
  assume h: "fetch_contacts_by_company_gsid remote domain access_key gsid w = Some (res, w') \<and>
        (\<exists>req\<in>set (drop (length (posted w)) (posted w')). aborts (remote req))"
  then have run: "fetch_contacts_loop remote
      (api_url domain ''/v1/data/objects/query/company_person'') (api_headers access_key)
      gsid 1000 [] 0 w = Some (res, w')"
    by (simp add: fetch_contacts_by_company_gsid_def)
  from fetch_contacts_loop_abort_run [OF run] obtain reqs where
    p: "posted w' = posted w @ reqs" and
    a: "\<forall>req\<in>set reqs. aborts (remote req) \<longrightarrow> res = Inr JNull"
    by auto
  from p have "drop (length (posted w)) (posted w') = reqs" by simp
  with h a show "res = Inr JNull" by auto
qed

theorem fetch_contacts_no_partial_witness:
  "(\<exists>w'. fetch_contacts_loop (\<lambda>req. Response 404 ''Not Found'' None) ''https://x.example/q'' []
            (JStr ''1P01'') 2 [JStr ''c1'', JStr ''c2''] 2 \<lparr>console = [], posted = []\<rparr> =
          Some (Inr JNull, w'))
   \<and> (\<exists>w'. fetch_contacts_by_company_gsid
            (\<lambda>req. case req of Post u h q t \<Rightarrow>
               if py_get q ''offset'' JNull = Inr (JNum 0)
               then Response 200 []
                      (Some (JObj [(''result'', JBool True),
                                   (''data'', JArr (replicate 1000 (JStr ''c'')))]))
               else Response 200 []
                      (Some (JObj [(''result'', JBool False), (''errorDesc'', JStr ''quota'')])))
            ''https://x.example'' ''key'' (JStr ''1P01'') \<lparr>console = [], posted = []\<rparr> =
          Some (Inr JNull, w')
        \<and> length (posted w') = 2)"
proof -
  let ?w = "\<lparr>console = [], posted = []\<rparr>"
  let ?r404 = "\<lambda>req::request. Response 404 ''Not Found'' None"
  let ?rm = "\<lambda>req. case req of Post u h q t \<Rightarrow>
               if py_get q ''offset'' JNull = Inr (JNum 0)
               then Response 200 []
                      (Some (JObj [(''result'', JBool True),
                                   (''data'', JArr (replicate 1000 (JStr ''c'')))]))
               else Response 200 []
                      (Some (JObj [(''result'', JBool False), (''errorDesc'', JStr ''quota'')]))"
  have a: "\<exists>w'. fetch_contacts_loop ?r404 ''https://x.example/q'' []
            (JStr ''1P01'') 2 [JStr ''c1'', JStr ''c2''] 2 ?w = Some (Inr JNull, w')"
    using fetch_contacts_no_partial [of ?r404 "''https://x.example/q''" "[]" "JStr ''1P01''" 2 2
        "[JStr ''c1'', JStr ''c2'']" ?w, THEN conjunct1]
    by (simp add: aborts_def)
  obtain res w' where run: "fetch_contacts_by_company_gsid ?rm ''https://x.example'' ''key''
      (JStr ''1P01'') ?w = Some (res, w')" and len: "length (posted w') = 2"
    and ab: "aborts (?rm (posted w' ! 1))"
    apply (simp add: fetch_contacts_by_company_gsid_def)
    apply (subst (asm) fetch_contacts_loop.simps)
    apply (simp add: fetch_contacts_page_def post_def contacts_query_def)
    apply (subst (asm) fetch_contacts_loop.simps)
    apply (simp add: fetch_contacts_page_def post_def contacts_query_def py_print_def aborts_def)
    done
  from len have mem: "posted w' ! 1 \<in> set (drop (length (posted ?w)) (posted w'))" by simp
  from mem ab have "\<exists>req\<in>set (drop (length (posted ?w)) (posted w')). aborts (?rm req)"
    by (rule rev_bexI)
  with fetch_contacts_no_partial [where remote = ?rm and domain = "''https://x.example''"
      and access_key = "''key''" and gsid = "JStr ''1P01''" and w = ?w and res = res and w' = w',
      THEN conjunct2] run
  have "res = Inr JNull" by blast
  with run len a show ?thesis by blast
qed

section \<open>Transport errors\<close>

text \<open>
  Claim C4, as the code has it.  Every function that performs a remote call catches a
  transport error and posts no second request.  \<open>fetch_contacts_by_company_gsid\<close> (in
  any round of its loop), \<open>safe_timeline_query\<close>, \<open>get_timeline_activities\<close> and
  \<open>lookup_company_by_id\<close> print the error and return \<open>None\<close>; \<open>main\<close> of the
  hello-world script prints it and ends normally; \<open>lookup_company_name\<close> returns
  \<open>None\<close> and \<open>get_company_contacts\<close> returns the empty list, both without printing.
\<close>

theorem transport_error_handling:
  "(remote (Post url headers (contacts_query gsid limit offset) 15) = RequestException e \<longrightarrow>
      fetch_contacts_loop remote url headers gsid limit contacts offset w =
        Some (Inr JNull,
              w\<lparr>console := console w @
                     [[U 0x1F50D, T '' Querying contacts (offset: '', V (JNum offset),
                       T '', limit: '', V (JNum limit), T '')...''],
                      [T ''   '', U 0x274C, T '' Request error: '', T e]],
                posted := posted w @ [Post url headers (contacts_query gsid limit offset) 15]\<rparr>))
   \<and> (remote (Post (api_url domain ''/v1/data/objects/query/activity_timeline'')
                (api_headers access_key) (timeline_query (JStr user_email) n) 15)
          = RequestException e \<longrightarrow>
      safe_timeline_query remote domain access_key user_email n w =
        (Inr JNull,
         w\<lparr>console := console w @
                [[U 0x1F50D, T '' Querying Timeline activities for '', T user_email,
                  T '' (limit: '', V (JNum n), T '')...''],
                 [T ''   '', U 0x274C, T '' Request error: '', T e]],
           posted := posted w @
                [Post (api_url domain ''/v1/data/objects/query/activity_timeline'')
                   (api_headers access_key) (timeline_query (JStr user_email) n) 15]\<rparr>)
      \<and> get_timeline_activities remote domain access_key user_email n w =
        (Inr JNull,
         w\<lparr>console := console w @
                [[U 0x1F4E7, T '' Getting '', V (JNum n),
                  T '' recent timeline activities for '', T user_email, T ''...''],
                 [T ''   '', U 0x274C, T '' Request error: '', T e]],
           posted := posted w @
                [Post (api_url domain ''/v1/data/objects/query/activity_timeline'')
                   (api_headers access_key) (timeline_query (JStr user_email) n) 15]\<rparr>))
   \<and> (remote (Post (api_url domain ''/v1/data/objects/query/Company'') (api_headers access_key)
                (company_query (JStr company_id)) 15) = RequestException e \<longrightarrow>
      lookup_company_by_id remote domain access_key company_id w =
        (Inr JNull,
         w\<lparr>console := console w @
                [[U 0x1F50D, T '' Looking up company with ID: '', T company_id],
                 [T ''   '', U 0x274C, T '' Request error: '', T e]],
           posted := posted w @
                [Post (api_url domain ''/v1/data/objects/query/Company'') (api_headers access_key)
                   (company_query (JStr company_id)) 15]\<rparr>))
   \<and> (remote (Post (api_url domain ''/v1/data/objects/query/Company'') (api_headers access_key)
                (company_name_query gsid) 10) = RequestException e \<longrightarrow>
      lookup_company_name remote domain access_key gsid w =
        (Inr JNull,
         w\<lparr>posted := posted w @
                [Post (api_url domain ''/v1/data/objects/query/Company'') (api_headers access_key)
                   (company_name_query gsid) 10]\<rparr>))
   \<and> (remote (Post (api_url domain ''/v1/data/objects/query/company_person'')
                (api_headers access_key) (company_contacts_query gsid n) 10)
          = RequestException e \<longrightarrow>
      get_company_contacts remote domain access_key gsid n w =
        (Inr (JArr []),
         w\<lparr>posted := posted w @
                [Post (api_url domain ''/v1/data/objects/query/company_person'')
                   (api_headers access_key) (company_contacts_query gsid n) 10]\<rparr>))
   \<and> (given (environ ''GAINSIGHT_DOMAIN'') \<and> given (environ ''GAINSIGHT_ACCESS_KEY'') \<and>
        (\<forall>req. remote req = RequestException e) \<longrightarrow>
      fst (hello_world_main remote environ w) = Inr () \<and>
      console (snd (hello_world_main remote environ w)) =
        console w @ [[], [U 0x274C, T '' Request failed.''], [T e]] \<and>
      length (posted (snd (hello_world_main remote environ w))) = Suc (length (posted w)))"
  by (simp add: hello_world_main_def print_lines_def fetch_contacts_loop.simps [of remote url headers gsid limit contacts offset w]
      fetch_contacts_page_def safe_timeline_query_def get_timeline_activities_def
      lookup_company_by_id_def lookup_company_name_def get_company_contacts_def
      post_def py_print_def)


theorem transport_error_handling_witness:
  "fetch_contacts_loop unreachable ''https://demo.gainsightcloud.example/q'' [] (JStr ''1P02'')
      1000 [JStr ''c1''] 1000 fresh =
     Some (Inr JNull,
           \<lparr>console = [[U 0x1F50D, T '' Querying contacts (offset: '', V (JNum 1000),
                          T '', limit: '', V (JNum 1000), T '')...''],
                         [T ''   '', U 0x274C, T '' Request error: '', T ''Connection timed out'']],
             posted = [Post ''https://demo.gainsightcloud.example/q'' []
                         (contacts_query (JStr ''1P02'') 1000 1000) 15]\<rparr>)
   \<and> fst (safe_timeline_query unreachable ''https://demo.gainsightcloud.example'' ''k3y''
            ''csm@corp.example'' 3 fresh) = Inr JNull
   \<and> fst (get_timeline_activities unreachable ''https://demo.gainsightcloud.example'' ''k3y''
            ''csm@corp.example'' 3 fresh) = Inr JNull
   \<and> fst (lookup_company_by_id unreachable ''https://demo.gainsightcloud.example'' ''k3y''
            ''1P02'' fresh) = Inr JNull
   \<and> lookup_company_name unreachable ''https://demo.gainsightcloud.example'' ''k3y''
        (JStr ''1P02'') fresh =
       (Inr JNull,
        \<lparr>console = [],
          posted = [Post (api_url ''https://demo.gainsightcloud.example''
                            ''/v1/data/objects/query/Company'')
                      (api_headers ''k3y'') (company_name_query (JStr ''1P02'')) 10]\<rparr>)
   \<and> get_company_contacts unreachable ''https://demo.gainsightcloud.example'' ''k3y''
        (JStr ''1P02'') 10 fresh =
       (Inr (JArr []),
        \<lparr>console = [],
          posted = [Post (api_url ''https://demo.gainsightcloud.example''
                            ''/v1/data/objects/query/company_person'')
                      (api_headers ''k3y'') (company_contacts_query (JStr ''1P02'') 10) 10]\<rparr>)
   \<and> fst (hello_world_main unreachable full_environ fresh) = Inr ()"
  using transport_error_handling [where remote = unreachable
      and url = "''https://demo.gainsightcloud.example/q''" and headers = "[]"
      and gsid = "JStr ''1P02''" and limit = 1000 and offset = 1000 and contacts = "[JStr ''c1'']"
      and w = fresh and e = "''Connection timed out''"
      and domain = "''https://demo.gainsightcloud.example''" and access_key = "''k3y''"
      and user_email = "''csm@corp.example''" and n = 3 and company_id = "''1P02''"
      and environ = full_environ]
    transport_error_handling [where remote = unreachable
      and url = "''https://demo.gainsightcloud.example/q''" and headers = "[]"
      and gsid = "JStr ''1P02''" and limit = 1000 and offset = 1000 and contacts = "[JStr ''c1'']"
      and w = fresh and e = "''Connection timed out''"
      and domain = "''https://demo.gainsightcloud.example''" and access_key = "''k3y''"
      and user_email = "''csm@corp.example''" and n = 10 and company_id = "''1P02''"
      and environ = full_environ]
  by (auto simp: unreachable_def fresh_def full_environ_def given_def)

text \<open>
  The claim as stated fails in csm-dashboard.py: on a transport error
  \<open>get_company_contacts\<close> returns the empty list, not \<open>None\<close>, and neither it nor
  \<open>lookup_company_name\<close> prints anything.
\<close>

theorem transport_error_counterexample:
  "fst (get_company_contacts unreachable ''https://demo.gainsightcloud.example'' ''k3y''
          (JStr ''1P02'') 10 fresh) = Inr (JArr [])
   \<and> fst (get_company_contacts unreachable ''https://demo.gainsightcloud.example'' ''k3y''
          (JStr ''1P02'') 10 fresh) \<noteq> Inr JNull
   \<and> console (snd (get_company_contacts unreachable ''https://demo.gainsightcloud.example''
          ''k3y'' (JStr ''1P02'') 10 fresh)) = console fresh
   \<and> console (snd (lookup_company_name unreachable ''https://demo.gainsightcloud.example''
          ''k3y'' (JStr ''1P02'') fresh)) = console fresh"
  by (simp add: get_company_contacts_def lookup_company_name_def post_def unreachable_def
      fresh_def)

section \<open>Failed calls and how the scripts end\<close>






lemma console_print_lines [simp]: "console (print_lines ls w) = console w @ ls"
  by (simp add: print_lines_def)

lemma posted_print_lines [simp]: "posted (print_lines ls w) = posted w"
  by (simp add: print_lines_def)








lemma exit_code_simps [simp]:
  "exit_code (Inr u) = 0" "exit_code (Inl (SystemExit n)) = n"
  by (simp_all add: exit_code_def)











end
